theory Spec2Isabelle
  imports Complex_Main "HOL-Library.Word"
begin

unbundle bit_operations_syntax

text \<open>
  The message elements of the chat client (\<^verbatim>\<open>messages/MessageElement.cpp\<close>) and the URL
  paint (\<^verbatim>\<open>providers/seventv/paints/UrlPaint.cpp\<close>): each class is a record that extends
  the record of its base class, each member function a function that takes the object
  and returns it with what it changed, and the container an element renders into is
  passed and returned.  A member \<^verbatim>\<open>x_\<close> of the source is the field \<open>m_x\<close>.
\<close>

section \<open>Strings, flags, links and resources\<close>

text \<open>
  A \<^verbatim>\<open>QString\<close> is a sequence of UTF-16 code units.  \<^verbatim>\<open>QString::mid\<close>,
  \<^verbatim>\<open>QString::split\<close>, \<^verbatim>\<open>QString::trimmed\<close> and \<^verbatim>\<open>QChar::isHighSurrogate\<close>
  belong to Qt; they are written out here as Qt documents them.
\<close>

type_synonym QChar = "16 word"
type_synonym QString = "QChar list"

definition isHighSurrogate :: "QChar \<Rightarrow> bool" where
  "isHighSurrogate u = (u AND 0xFC00 = 0xD800)"

definition mid :: "QString \<Rightarrow> nat \<Rightarrow> nat \<Rightarrow> QString" where
  "mid s pos n = take n (drop pos s)"

definition midFrom :: "QString \<Rightarrow> nat \<Rightarrow> QString" where
  "midFrom s pos = drop pos s"

fun split :: "QChar \<Rightarrow> QString \<Rightarrow> QString list" where
  "split sep [] = [[]]"
| "split sep (c # cs) =
     (if c = sep then [] # split sep cs
      else (case split sep cs of [] \<Rightarrow> [[c]] | w # ws \<Rightarrow> (c # w) # ws))"

definition isSpace :: "QChar \<Rightarrow> bool" where
  "isSpace u = (u = 0x20 \<or> (0x09 \<le> u \<and> u \<le> 0x0D) \<or> u = 0x85 \<or> u = 0xA0 \<or> u = 0x1680
     \<or> (0x2000 \<le> u \<and> u \<le> 0x200A) \<or> u = 0x2028 \<or> u = 0x2029 \<or> u = 0x202F
     \<or> u = 0x205F \<or> u = 0x3000)"

definition trimmed :: "QString \<Rightarrow> QString" where
  "trimmed s = rev (dropWhile isSpace (rev (dropWhile isSpace s)))"

text \<open>
  Modelled from the spec: \<^verbatim>\<open>FlagsEnum\<close> (its header is not part of the sources).
  \<^verbatim>\<open>MessageElementFlags\<close> is a bit set over a 64-bit integer; \<^verbatim>\<open>hasAny\<close> holds when
  the two sets intersect (the spec's visibility test), \<^verbatim>\<open>has\<close> tests a flag, which may
  be a union of bits, the same way, and \<^verbatim>\<open>set\<close> adds bits.  The enumerators of
  \<^verbatim>\<open>MessageElementFlag\<close> are declared in a header that is not part of the sources
  either, so the ones the code names are taken as parameters (\<open>FlagNames\<close>);
  \<^verbatim>\<open>None\<close> is the empty set.
\<close>

type_synonym MessageElementFlags = "64 word"

definition hasAny :: "MessageElementFlags \<Rightarrow> MessageElementFlags \<Rightarrow> bool" where
  "hasAny a b = (a AND b \<noteq> 0)"

definition has :: "MessageElementFlags \<Rightarrow> MessageElementFlags \<Rightarrow> bool" where
  "has a f = (a AND f \<noteq> 0)"

definition flagsSet :: "MessageElementFlags \<Rightarrow> MessageElementFlags \<Rightarrow> MessageElementFlags" where
  "flagsSet a b = a OR b"

definition FlagNone :: MessageElementFlags where
  "FlagNone = 0"

record FlagNames =
  Misc :: MessageElementFlags
  EmoteImages :: MessageElementFlags
  Timestamp :: MessageElementFlags
  ModeratorTools :: MessageElementFlags
  RepliedMessage :: MessageElementFlags

datatype LinkType = LinkNone | Url | UserAction | OtherLink nat

record Link =
  link_type :: LinkType
  link_value :: QString

definition noLink :: Link where
  "noLink = \<lparr>link_type = LinkNone, link_value = []\<rparr>"

type_synonym QColor = nat
type_synonym QTime = nat
type_synonym ThumbnailType = nat

datatype MessageColor = Custom QColor | TextColor | LinkColor | System
datatype FontStyle = ChatMedium | OtherStyle nat

record QSize =
  size_width :: int
  size_height :: int

text \<open>
  Scale factors are floats in the source.  A float is kept as the rational it
  denotes.  Floating-point arithmetic is not modelled: the conversion of an int to
  float, the product of two floats, as the machine rounds it, and \<^verbatim>\<open>QSize * qreal\<close>
  are parameters of the environment (\<open>floatOfInt\<close>, \<open>floatMul\<close> and \<open>scaleSize\<close>
  below).  \<open>toInt\<close> is the conversion \<^verbatim>\<open>int(x)\<close> of a float (towards zero) and
  \<open>qRound\<close> is Qt's rounding of a float; both are exact on the value.  \<open>mulSize\<close> is
  \<^verbatim>\<open>QSize * qreal\<close> with an exact product; only the example environment uses it.
\<close>

definition toInt :: "rat \<Rightarrow> int" where
  "toInt x = (if 0 \<le> x then \<lfloor>x\<rfloor> else \<lceil>x\<rceil>)"

definition qRound :: "rat \<Rightarrow> int" where
  "qRound x = (if 0 \<le> x then \<lfloor>x + 1 / 2\<rfloor> else \<lceil>x - 1 / 2\<rceil>)"

definition mulSize :: "QSize \<Rightarrow> rat \<Rightarrow> QSize" where
  "mulSize s f = \<lparr>size_width = qRound (of_int (size_width s) * f),
                  size_height = qRound (of_int (size_height s) * f)\<rparr>"

text \<open>
  An image as the resource loader shows it at the time of the call: its pixel size,
  whether it is the empty sentinel, and the pixmap \<^verbatim>\<open>pixmapOrLoad\<close> would return.
  An image set is the function \<^verbatim>\<open>getImageOrLoaded(scale)\<close>.  An emote is its image set,
  its tooltip string and the string \<^verbatim>\<open>Emote::getCopyString()\<close> returns.  An
  \<^verbatim>\<open>EmotePtr\<close> is a shared pointer to an immutable emote: the address is its identity.
\<close>

datatype QPixmap =
    Loaded nat
  | ScaledToWidth QPixmap int
  | Filled QPixmap QColor
  | DrawnOver QPixmap int int QPixmap
  | Copied QPixmap int int int int

record Image =
  img_width :: int
  img_height :: int
  isEmpty :: bool
  pixmapOrLoad :: "QPixmap option"

type_synonym ImageSet = "rat \<Rightarrow> Image"

record Emote =
  images :: ImageSet
  tooltip :: QString
  getCopyString :: QString

record EmotePtr =
  addr :: nat
  emote :: Emote

datatype ParsedWord = ParsedText QString | ParsedEmote EmotePtr

record QFontMetrics =
  horizontalAdvance :: "QString \<Rightarrow> int"
  height :: int
  elidedText :: "QString \<Rightarrow> int \<Rightarrow> QString"

record ModerationAction =
  getImage :: "Image option"
  getLine1 :: QString
  getLine2 :: QString
  getAction :: QString

text \<open>
  The application, settings and theme singletons the elements read while rendering,
  passed explicitly.
\<close>

record Env =
  flag :: FlagNames
  getFontMetrics :: "FontStyle \<Rightarrow> rat \<Rightarrow> QFontMetrics"
  getColor :: "MessageColor \<Rightarrow> QColor"
  normalizeColor :: "QColor \<Rightarrow> QColor"
  emoteScale :: rat
  floatOfInt :: "int \<Rightarrow> rat"
  floatMul :: "rat \<Rightarrow> rat \<Rightarrow> rat"
  scaleSize :: "QSize \<Rightarrow> rat \<Rightarrow> QSize"
  timestampFormat :: QString
  moderationActions :: "ModerationAction list"
  parse :: "QString \<Rightarrow> ParsedWord list"
  localeToString :: "QTime \<Rightarrow> QString \<Rightarrow> QString"

section \<open>Layout primitives and the layout container\<close>

datatype LayoutKind =
    TextLayout QColor FontStyle rat bool
  | ImageLayout Image
  | ImageWithBackgroundLayout Image QColor
  | ImageWithCircleBackgroundLayout Image QColor int
  | LayeredImageLayout "Image list" "QSize list"
  | TextIconLayout QString QString rat
  | ReplyCurveLayout rat rat rat

record MessageLayoutElement =
  le_kind :: LayoutKind
  le_size :: QSize
  le_link :: Link
  le_text :: QString
  le_trailingSpace :: bool

datatype FirstWord = Neutral | RTL | LTR

text \<open>
  Modelled from the spec: \<^verbatim>\<open>MessageLayoutContainer\<close> (its implementation is not part
  of the sources).  The spec has it track the render scale and the remaining
  horizontal width on the current line, accumulate the emitted primitives, and expose
  a line break and a fits-in-line query.  \<open>c_width\<close> is the width of a line,
  \<open>currentX\<close> the cursor on the current line, \<open>lineStart\<close> the number of primitives
  emitted before the current line began.
\<close>

record MessageLayoutContainer =
  c_scale :: rat
  c_width :: int
  spaceWidth :: int
  currentX :: int
  line :: nat
  lineStart :: nat
  elements :: "MessageLayoutElement list"
  first :: FirstWord

definition getScale :: "MessageLayoutContainer \<Rightarrow> rat" where
  "getScale c = c_scale c"

definition remainingWidth :: "MessageLayoutContainer \<Rightarrow> int" where
  "remainingWidth c = c_width c - currentX c"

definition fitsInLine :: "MessageLayoutContainer \<Rightarrow> int \<Rightarrow> bool" where
  "fitsInLine c w = (w \<le> remainingWidth c)"

definition atStartOfLine :: "MessageLayoutContainer \<Rightarrow> bool" where
  "atStartOfLine c = (lineStart c = length (elements c))"

definition breakLine :: "MessageLayoutContainer \<Rightarrow> MessageLayoutContainer" where
  "breakLine c = c\<lparr>currentX := 0, line := Suc (line c), lineStart := length (elements c)\<rparr>"

definition addElementNoLineBreak ::
  "MessageLayoutContainer \<Rightarrow> MessageLayoutElement \<Rightarrow> MessageLayoutContainer" where
  "addElementNoLineBreak c e =
     c\<lparr>elements := elements c @ [e],
       currentX := currentX c + size_width (le_size e)
                    + (if le_trailingSpace e then spaceWidth c else 0)\<rparr>"

definition addElement ::
  "MessageLayoutContainer \<Rightarrow> MessageLayoutElement \<Rightarrow> MessageLayoutContainer" where
  "addElement c e =
     (if fitsInLine c (size_width (le_size e)) then addElementNoLineBreak c e
      else addElementNoLineBreak (breakLine c) e)"

section \<open>The element base class\<close>

record MessageElement =
  m_text :: QString
  m_link :: Link
  m_tooltip :: QString
  m_thumbnail :: "Image option"
  m_thumbnailType :: ThumbnailType
  m_flags :: MessageElementFlags
  trailingSpace :: bool

text \<open>
  Modelled from the spec: the initial values of the members (the header is not part
  of the sources).  The constructor \<^verbatim>\<open>MessageElement(flags)\<close> sets \<open>m_flags\<close>; the
  strings and the link start empty and the thumbnail null, and \<open>trailingSpace\<close>, the
  spec's "whether a trailing space follows this element", starts true, until
  \<^verbatim>\<open>setTrailingSpace\<close> changes it.
\<close>

definition newMessageElement :: "MessageElementFlags \<Rightarrow> MessageElement" where
  "newMessageElement f =
     \<lparr>m_text = [], m_link = noLink, m_tooltip = [], m_thumbnail = None, m_thumbnailType = 0,
      m_flags = f, trailingSpace = True\<rparr>"

definition setLink :: "'a MessageElement_scheme \<Rightarrow> Link \<Rightarrow> 'a MessageElement_scheme" where
  "setLink e l = e\<lparr>m_link := l\<rparr>"

definition setText :: "'a MessageElement_scheme \<Rightarrow> QString \<Rightarrow> 'a MessageElement_scheme" where
  "setText e t = e\<lparr>m_text := t\<rparr>"

definition setTooltip :: "'a MessageElement_scheme \<Rightarrow> QString \<Rightarrow> 'a MessageElement_scheme" where
  "setTooltip e t = e\<lparr>m_tooltip := t\<rparr>"

definition setThumbnail ::
  "'a MessageElement_scheme \<Rightarrow> Image option \<Rightarrow> 'a MessageElement_scheme" where
  "setThumbnail e t = e\<lparr>m_thumbnail := t\<rparr>"

definition setThumbnailType ::
  "'a MessageElement_scheme \<Rightarrow> ThumbnailType \<Rightarrow> 'a MessageElement_scheme" where
  "setThumbnailType e t = e\<lparr>m_thumbnailType := t\<rparr>"

definition setTrailingSpace :: "'a MessageElement_scheme \<Rightarrow> bool \<Rightarrow> 'a MessageElement_scheme" where
  "setTrailingSpace e v = e\<lparr>trailingSpace := v\<rparr>"

definition getTooltip :: "'a MessageElement_scheme \<Rightarrow> QString" where
  "getTooltip e = m_tooltip e"

definition getThumbnail :: "'a MessageElement_scheme \<Rightarrow> Image option" where
  "getThumbnail e = m_thumbnail e"

definition getText :: "'a MessageElement_scheme \<Rightarrow> QString" where
  "getText e = m_text e"

definition getLink :: "'a MessageElement_scheme \<Rightarrow> Link" where
  "getLink e = m_link e"

definition hasTrailingSpace :: "'a MessageElement_scheme \<Rightarrow> bool" where
  "hasTrailingSpace e = trailingSpace e"

definition getFlags :: "'a MessageElement_scheme \<Rightarrow> MessageElementFlags" where
  "getFlags e = m_flags e"

definition addFlags ::
  "'a MessageElement_scheme \<Rightarrow> MessageElementFlags \<Rightarrow> 'a MessageElement_scheme" where
  "addFlags e f = e\<lparr>m_flags := flagsSet (m_flags e) f\<rparr>"

definition cloneFrom ::
  "'a MessageElement_scheme \<Rightarrow> 'b MessageElement_scheme \<Rightarrow> 'a MessageElement_scheme" where
  "cloneFrom this source =
     this\<lparr>m_text := m_text source, m_link := m_link source, m_tooltip := m_tooltip source,
          m_thumbnail := m_thumbnail source, m_thumbnailType := m_thumbnailType source,
          m_flags := m_flags source\<rparr>"

text \<open>
  Modelled from the spec: the constructors of the layout primitives (not part of the
  sources).  The spec's \<open>trailingSpace\<close> says whether a trailing space follows the
  element, so a primitive starts with the trailing-space flag of the element that
  creates it, and with no link and no text; the setters the element calls on it are
  written out where they are called.
\<close>

definition newLayoutElement ::
  "'a MessageElement_scheme \<Rightarrow> LayoutKind \<Rightarrow> QSize \<Rightarrow> MessageLayoutElement" where
  "newLayoutElement creator k s =
     \<lparr>le_kind = k, le_size = s, le_link = noLink, le_text = [],
      le_trailingSpace = hasTrailingSpace creator\<rparr>"

section \<open>Text\<close>

record Word =
  word_text :: QString
  word_width :: int

record TextElement = MessageElement +
  m_color :: MessageColor
  m_style :: FontStyle
  m_words :: "Word list"

definition newTextElement ::
  "QString \<Rightarrow> MessageElementFlags \<Rightarrow> MessageColor \<Rightarrow> FontStyle \<Rightarrow> TextElement" where
  "newTextElement t f color style =
     MessageElement.extend (newMessageElement f)
       (TextElement.fields color style (map (\<lambda>w. \<lparr>word_text = w, word_width = - 1\<rparr>) (split 0x20 t)))"

definition getTextLayoutElement ::
  "Env \<Rightarrow> 'a MessageElement_scheme \<Rightarrow> MessageColor \<Rightarrow> FontStyle \<Rightarrow> QFontMetrics \<Rightarrow> rat
     \<Rightarrow> QString \<Rightarrow> int \<Rightarrow> bool \<Rightarrow> MessageLayoutElement" where
  "getTextLayoutElement env this color style metrics scale t w hasTrailing =
     (newLayoutElement this
        (TextLayout (normalizeColor env (getColor env color)) style scale
           (link_type (getLink this) = Url))
        \<lparr>size_width = w, size_height = height metrics\<rparr>)
       \<lparr>le_link := getLink this, le_trailingSpace := hasTrailing, le_text := t\<rparr>"

text \<open>
  The character-level loop of \<^verbatim>\<open>TextElement::addToContainer\<close>: \<open>mk\<close> is the lambda
  \<^verbatim>\<open>getTextLayoutElement\<close>, and the result is \<open>wordStart\<close>, \<open>width\<close> and the container
  after the loop.
\<close>

definition charWidthAt :: "QFontMetrics \<Rightarrow> QString \<Rightarrow> nat \<Rightarrow> int" where
  "charWidthAt metrics t i =
     (if length t > i + 1 \<and> isHighSurrogate (t ! i)
      then horizontalAdvance metrics (mid t i 2)
      else horizontalAdvance metrics [t ! i])"

function wrapLoop ::
  "(QString \<Rightarrow> int \<Rightarrow> bool \<Rightarrow> MessageLayoutElement) \<Rightarrow> QFontMetrics \<Rightarrow> QString
     \<Rightarrow> nat \<Rightarrow> nat \<Rightarrow> int \<Rightarrow> MessageLayoutContainer
     \<Rightarrow> nat \<times> int \<times> MessageLayoutContainer" where
  "wrapLoop mk metrics t i wordStart width c =
     (if i < length t then
        (let isSurrogate = (length t > i + 1 \<and> isHighSurrogate (t ! i));
             charWidth = charWidthAt metrics t i;
             next_i = (if isSurrogate then i + 2 else i + 1)
         in if \<not> fitsInLine c (width + charWidth)
            then wrapLoop mk metrics t next_i i charWidth
                   (breakLine (addElementNoLineBreak c (mk (mid t wordStart (i - wordStart)) width False)))
            else wrapLoop mk metrics t next_i wordStart (width + charWidth) c)
      else (wordStart, width, c))"
  by pat_completeness auto
termination
  by (relation "measure (\<lambda>(mk, metrics, t, i, wordStart, width, c). length t - i)") auto

definition addWord ::
  "(QString \<Rightarrow> int \<Rightarrow> bool \<Rightarrow> MessageLayoutElement) \<Rightarrow> QFontMetrics \<Rightarrow> bool
     \<Rightarrow> MessageLayoutContainer \<Rightarrow> Word \<Rightarrow> Word \<times> MessageLayoutContainer" where
  "addWord mk metrics trailing c word =
     (let w = horizontalAdvance metrics (word_text word);
          word' = word\<lparr>word_width := w\<rparr>
      in if fitsInLine c w
         then (word', addElementNoLineBreak c (mk (word_text word) w trailing))
         else
           (let c1 = (if \<not> atStartOfLine c then breakLine c else c)
            in if \<not> atStartOfLine c \<and> fitsInLine c1 w
               then (word', addElementNoLineBreak c1 (mk (word_text word) w trailing))
               else
                 (case wrapLoop mk metrics (word_text word) 0 0 0 c1 of
                    (wordStart, width, c2) \<Rightarrow>
                      (word', addElementNoLineBreak c2
                                (mk (midFrom (word_text word) wordStart) width trailing)))))"

fun addWords ::
  "(QString \<Rightarrow> int \<Rightarrow> bool \<Rightarrow> MessageLayoutElement) \<Rightarrow> QFontMetrics \<Rightarrow> bool
     \<Rightarrow> MessageLayoutContainer \<Rightarrow> Word list \<Rightarrow> Word list \<times> MessageLayoutContainer" where
  "addWords mk metrics trailing c [] = ([], c)"
| "addWords mk metrics trailing c (word # rest) =
     (case addWord mk metrics trailing c word of
        (word', c') \<Rightarrow>
          (case addWords mk metrics trailing c' rest of
             (rest', c'') \<Rightarrow> (word' # rest', c'')))"

definition TextElement_addToContainer ::
  "Env \<Rightarrow> TextElement \<Rightarrow> MessageLayoutContainer \<Rightarrow> MessageElementFlags
     \<Rightarrow> TextElement \<times> MessageLayoutContainer" where
  "TextElement_addToContainer env this container flags =
     (if hasAny flags (getFlags this) then
        (let metrics = getFontMetrics env (m_style this) (getScale container);
             mk = getTextLayoutElement env this (m_color this) (m_style this) metrics
                    (getScale container)
         in case addWords mk metrics (hasTrailingSpace this) container (m_words this) of
              (ws, c) \<Rightarrow> (this\<lparr>m_words := ws\<rparr>, c))
      else (this, container))"

definition TextElement_clone :: "TextElement \<Rightarrow> TextElement" where
  "TextElement_clone this =
     cloneFrom ((newTextElement [] (getFlags this) (m_color this) (m_style this))
                  \<lparr>m_words := m_words this\<rparr>) this"


text \<open>
  The condition under which \<^verbatim>\<open>TextElement::addToContainer\<close> reaches its character-level
  loop for a word: the word fits neither in the current line nor, when the container
  is not at the start of a line, in the line after the break.
\<close>

definition splitsCharacterWise :: "QFontMetrics \<Rightarrow> MessageLayoutContainer \<Rightarrow> Word \<Rightarrow> bool" where
  "splitsCharacterWise metrics c word =
     (\<not> fitsInLine c (horizontalAdvance metrics (word_text word))
      \<and> (atStartOfLine c \<or> \<not> fitsInLine (breakLine c) (horizontalAdvance metrics (word_text word))))"




section \<open>Single-line text\<close>

text \<open>
  \<^verbatim>\<open>SingleLineTextElement\<close> has the members of \<^verbatim>\<open>TextElement\<close> (colour, style, words)
  and shares its record.  \<open>parsedWordLoop\<close> is the inner loop over the tokens of one
  word; each \<^verbatim>\<open>break\<close> of the source returns from it, and the loop over the words
  (\<open>singleLineWords\<close>) goes on with the next word, as the source does.
\<close>

definition ellipsis :: QString where
  "ellipsis = [0x2E, 0x2E, 0x2E]"

fun parsedWordLoop ::
  "Env \<Rightarrow> TextElement \<Rightarrow> QFontMetrics \<Rightarrow> ParsedWord list \<Rightarrow> QString \<Rightarrow> MessageLayoutContainer
     \<Rightarrow> QString \<times> MessageLayoutContainer" where
  "parsedWordLoop env this metrics [] currentText container = (currentText, container)"
| "parsedWordLoop env this metrics (ParsedText s # rest) currentText container =
     (let currentText1 = (if currentText \<noteq> [] then currentText @ [0x20] else currentText) @ s;
          prev = currentText1;
          currentText2 = elidedText metrics currentText1 (remainingWidth container)
      in if currentText2 \<noteq> prev then (currentText2, container)
         else parsedWordLoop env this metrics rest currentText2 container)"
| "parsedWordLoop env this metrics (ParsedEmote e # rest) currentText container =
     (let image = images (emote e) (getScale container)
      in if \<not> isEmpty image then
           (let currentWidth = horizontalAdvance metrics currentText;
                emoteSize = scaleSize env \<lparr>size_width = img_width image, size_height = img_height image\<rparr>
                              (floatMul env (emoteScale env) (getScale container))
            in if \<not> fitsInLine container (currentWidth + size_width emoteSize)
               then (currentText @ ellipsis, container)
               else parsedWordLoop env this metrics rest []
                      (addElementNoLineBreak
                         (addElementNoLineBreak container
                            (getTextLayoutElement env this (m_color this) (m_style this) metrics
                               (getScale container) currentText currentWidth False))
                         ((newLayoutElement this (ImageLayout image) emoteSize)
                            \<lparr>le_link := getLink this\<rparr>)))
         else parsedWordLoop env this metrics rest currentText container)"

fun singleLineWords ::
  "Env \<Rightarrow> TextElement \<Rightarrow> QFontMetrics \<Rightarrow> Word list \<Rightarrow> QString \<Rightarrow> MessageLayoutContainer
     \<Rightarrow> QString \<times> MessageLayoutContainer" where
  "singleLineWords env this metrics [] currentText container = (currentText, container)"
| "singleLineWords env this metrics (word # rest) currentText container =
     (case parsedWordLoop env this metrics (parse env (word_text word)) currentText container of
        (currentText', container') \<Rightarrow> singleLineWords env this metrics rest currentText' container')"

definition SingleLineTextElement_addToContainer ::
  "Env \<Rightarrow> TextElement \<Rightarrow> MessageLayoutContainer \<Rightarrow> MessageElementFlags \<Rightarrow> MessageLayoutContainer" where
  "SingleLineTextElement_addToContainer env this container flags =
     (if hasAny flags (getFlags this) then
        (let metrics = getFontMetrics env (m_style this) (getScale container)
         in case singleLineWords env this metrics (m_words this) [] (container\<lparr>first := Neutral\<rparr>) of
              (currentText, c) \<Rightarrow>
                breakLine
                  (if currentText \<noteq> [] then
                     addElementNoLineBreak c
                       (getTextLayoutElement env this (m_color this) (m_style this) metrics (getScale c)
                          (trimmed currentText) (horizontalAdvance metrics (trimmed currentText)) False)
                   else c))
      else container)"

definition SingleLineTextElement_clone :: "TextElement \<Rightarrow> TextElement" where
  "SingleLineTextElement_clone this =
     cloneFrom ((newTextElement [] (getFlags this) (m_color this) (m_style this))
                  \<lparr>m_words := m_words this\<rparr>) this"

section \<open>Images, emotes and badges\<close>

definition EmptyElement_addToContainer ::
  "MessageElement \<Rightarrow> MessageLayoutContainer \<Rightarrow> MessageElementFlags \<Rightarrow> MessageLayoutContainer" where
  "EmptyElement_addToContainer this container flags = container"

definition EmptyElement_clone :: "MessageElement \<Rightarrow> MessageElement" where
  "EmptyElement_clone this = cloneFrom (newMessageElement FlagNone) this"

record ImageElement = MessageElement +
  m_image :: Image

definition newImageElement :: "Image \<Rightarrow> MessageElementFlags \<Rightarrow> ImageElement" where
  "newImageElement img f = MessageElement.extend (newMessageElement f) (ImageElement.fields img)"

definition ImageElement_addToContainer ::
  "Env \<Rightarrow> ImageElement \<Rightarrow> MessageLayoutContainer \<Rightarrow> MessageElementFlags
     \<Rightarrow> MessageLayoutContainer" where
  "ImageElement_addToContainer env this container flags =
     (if hasAny flags (getFlags this) then
        (let size = \<lparr>size_width = toInt (floatMul env (floatOfInt env (img_width (m_image this)))
                                            (getScale container)),
                     size_height = toInt (floatMul env (floatOfInt env (img_height (m_image this)))
                                             (getScale container))\<rparr>
         in addElement container
              ((newLayoutElement this (ImageLayout (m_image this)) size)\<lparr>le_link := getLink this\<rparr>))
      else container)"

definition ImageElement_clone :: "ImageElement \<Rightarrow> ImageElement" where
  "ImageElement_clone this = cloneFrom (newImageElement (m_image this) (getFlags this)) this"

record CircularImageElement = MessageElement +
  ci_image :: Image
  m_padding :: int
  m_background :: QColor

definition newCircularImageElement ::
  "Image \<Rightarrow> int \<Rightarrow> QColor \<Rightarrow> MessageElementFlags \<Rightarrow> CircularImageElement" where
  "newCircularImageElement img padding background f =
     MessageElement.extend (newMessageElement f) (CircularImageElement.fields img padding background)"

definition CircularImageElement_addToContainer ::
  "Env \<Rightarrow> CircularImageElement \<Rightarrow> MessageLayoutContainer \<Rightarrow> MessageElementFlags
     \<Rightarrow> MessageLayoutContainer" where
  "CircularImageElement_addToContainer env this container flags =
     (if hasAny flags (getFlags this) then
        (let imgSize = scaleSize env \<lparr>size_width = img_width (ci_image this),
                                size_height = img_height (ci_image this)\<rparr> (getScale container)
         in addElement container
              ((newLayoutElement this
                  (ImageWithCircleBackgroundLayout (ci_image this) (m_background this) (m_padding this))
                  imgSize)\<lparr>le_link := getLink this\<rparr>))
      else container)"

definition CircularImageElement_clone :: "CircularImageElement \<Rightarrow> CircularImageElement" where
  "CircularImageElement_clone this =
     cloneFrom (newCircularImageElement (ci_image this) (m_padding this) (m_background this)
                  (getFlags this)) this"

text \<open>
  \<^verbatim>\<open>EmoteElement\<close>.  \<open>m_textElement\<close> is the owned pointer \<^verbatim>\<open>textElement_\<close>
  (\<open>None\<close> when null).  The default arguments of the constructors (text colour
  \<^verbatim>\<open>MessageColor::Text\<close>, font style \<^verbatim>\<open>FontStyle::ChatMedium\<close>) are those of the header.
\<close>

record EmoteElement = MessageElement +
  m_emote :: EmotePtr
  m_textElement :: "TextElement option"

definition newEmoteElement ::
  "Env \<Rightarrow> EmotePtr \<Rightarrow> MessageElementFlags \<Rightarrow> MessageColor \<Rightarrow> EmoteElement" where
  "newEmoteElement env e f textElementColor =
     setTooltip
       (MessageElement.extend (newMessageElement f)
          (EmoteElement.fields e
             (Some (newTextElement (getCopyString (emote e)) (Misc (flag env)) textElementColor ChatMedium))))
       (tooltip (emote e))"

definition EmoteElement_addToContainer ::
  "Env \<Rightarrow> EmoteElement \<Rightarrow> MessageLayoutContainer \<Rightarrow> MessageElementFlags
     \<Rightarrow> EmoteElement \<times> MessageLayoutContainer" where
  "EmoteElement_addToContainer env this container flags =
     (if hasAny flags (getFlags this) then
        (if has flags (EmoteImages (flag env)) then
           (let image = images (emote (m_emote this)) (getScale container)
            in if isEmpty image then (this, container)
               else
                 (let size = \<lparr>size_width = toInt (floatMul env (floatMul env (getScale container)
                                                    (floatOfInt env (img_width image))) (emoteScale env)),
                              size_height = toInt (floatMul env (floatMul env (getScale container)
                                                     (floatOfInt env (img_height image))) (emoteScale env))\<rparr>
                  in (this, addElement container
                              ((newLayoutElement this (ImageLayout image) size)\<lparr>le_link := getLink this\<rparr>))))
         else
           (case m_textElement this of
              Some te \<Rightarrow>
                (case TextElement_addToContainer env te container (Misc (flag env)) of
                   (te', c) \<Rightarrow> (this\<lparr>m_textElement := Some te'\<rparr>, c))
            | None \<Rightarrow> (this, container)))
      else (this, container))"

text \<open>
  \<^verbatim>\<open>EmoteElement::clone\<close> dereferences \<^verbatim>\<open>textElement_\<close>; on a null pointer it has no
  result (\<open>None\<close>).
\<close>

definition EmoteElement_clone :: "Env \<Rightarrow> EmoteElement \<Rightarrow> EmoteElement option" where
  "EmoteElement_clone env this =
     (case m_textElement this of
        None \<Rightarrow> None
      | Some te \<Rightarrow>
          Some (cloneFrom ((newEmoteElement env (m_emote this) (getFlags this) TextColor)
                             \<lparr>m_textElement := Some (TextElement_clone te)\<rparr>) this))"


text \<open>
  \<^verbatim>\<open>LayeredEmoteElement\<close>.  A layer is the struct \<^verbatim>\<open>LayeredEmoteElement::Emote\<close>: the
  shared emote pointer and the flags of the layer.
\<close>

record LayeredEmote =
  ptr :: EmotePtr
  layer_flags :: MessageElementFlags

record LayeredEmoteElement = MessageElement +
  m_emotes :: "LayeredEmote list"
  m_emoteTooltips :: "QString list"
  le_textElement :: "TextElement option"
  m_textElementColor :: MessageColor

fun getBoundingBoxSizeLoop :: "Image list \<Rightarrow> int \<Rightarrow> int \<Rightarrow> QSize" where
  "getBoundingBoxSizeLoop [] w h = \<lparr>size_width = w, size_height = h\<rparr>"
| "getBoundingBoxSizeLoop (img # imgs) w h =
     getBoundingBoxSizeLoop imgs (max w (img_width img)) (max h (img_height img))"

definition getBoundingBoxSize :: "Image list \<Rightarrow> QSize" where
  "getBoundingBoxSize imgs = getBoundingBoxSizeLoop imgs 0 0"

fun copyStringLoop :: "LayeredEmote list \<Rightarrow> nat \<Rightarrow> QString \<Rightarrow> QString" where
  "copyStringLoop [] i result = result"
| "copyStringLoop (e # es) i result =
     copyStringLoop es (Suc i)
       ((if i \<noteq> 0 then result @ [0x20] else result) @ getCopyString (emote (ptr e)))"

definition LayeredEmoteElement_getCopyString :: "LayeredEmoteElement \<Rightarrow> QString" where
  "LayeredEmoteElement_getCopyString this = copyStringLoop (m_emotes this) 0 []"

definition updateTooltips :: "Env \<Rightarrow> LayeredEmoteElement \<Rightarrow> LayeredEmoteElement" where
  "updateTooltips env this =
     (let this1 =
        (if m_emotes this \<noteq> [] then
           (let copyStr = LayeredEmoteElement_getCopyString this
            in setTooltip
                 (this\<lparr>le_textElement :=
                    Some (newTextElement copyStr (Misc (flag env)) (m_textElementColor this) ChatMedium)\<rparr>)
                 copyStr)
         else this)
      in this1\<lparr>m_emoteTooltips := map (\<lambda>e. tooltip (emote (ptr e))) (m_emotes this1)\<rparr>)"

definition newLayeredEmoteElement ::
  "Env \<Rightarrow> LayeredEmote list \<Rightarrow> MessageElementFlags \<Rightarrow> MessageColor \<Rightarrow> LayeredEmoteElement" where
  "newLayeredEmoteElement env emotes f textElementColor =
     updateTooltips env
       (MessageElement.extend (newMessageElement f)
          (LayeredEmoteElement.fields emotes [] None textElementColor))"

definition addEmoteLayer :: "Env \<Rightarrow> LayeredEmoteElement \<Rightarrow> LayeredEmote \<Rightarrow> LayeredEmoteElement" where
  "addEmoteLayer env this e = updateTooltips env (this\<lparr>m_emotes := m_emotes this @ [e]\<rparr>)"

definition getEmoteTooltips :: "LayeredEmoteElement \<Rightarrow> QString list" where
  "getEmoteTooltips this = m_emoteTooltips this"

definition getEmotes :: "LayeredEmoteElement \<Rightarrow> LayeredEmote list" where
  "getEmotes this = m_emotes this"

text \<open>
  The spec's "space-joined concatenation" of a list of strings, to compare the
  tooltip with.
\<close>

fun joinWithSpace :: "QString list \<Rightarrow> QString" where
  "joinWithSpace [] = []"
| "joinWithSpace [x] = x"
| "joinWithSpace (x # y # ys) = x @ [0x20] @ joinWithSpace (y # ys)"

fun getLoadedImagesLoop :: "LayeredEmote list \<Rightarrow> rat \<Rightarrow> Image list \<Rightarrow> Image list" where
  "getLoadedImagesLoop [] scale res = res"
| "getLoadedImagesLoop (e # es) scale res =
     (let img = images (emote (ptr e)) scale
      in if isEmpty img then getLoadedImagesLoop es scale res
         else getLoadedImagesLoop es scale (res @ [img]))"

definition getLoadedImages :: "LayeredEmoteElement \<Rightarrow> rat \<Rightarrow> Image list" where
  "getLoadedImages this scale = getLoadedImagesLoop (m_emotes this) scale []"

text \<open>
  \<^verbatim>\<open>getUniqueEmotes\<close>: \<^verbatim>\<open>std::copy_if\<close> with the functor \<^verbatim>\<open>NotDuplicate\<close>, whose set
  \<open>seen\<close> orders the shared pointers by address.
\<close>

fun copy_if_NotDuplicate :: "LayeredEmote list \<Rightarrow> nat set \<Rightarrow> LayeredEmote list \<Rightarrow> LayeredEmote list" where
  "copy_if_NotDuplicate [] seen unique = unique"
| "copy_if_NotDuplicate (element # rest) seen unique =
     (if addr (ptr element) \<notin> seen
      then copy_if_NotDuplicate rest (insert (addr (ptr element)) seen) (unique @ [element])
      else copy_if_NotDuplicate rest seen unique)"

definition getUniqueEmotes :: "LayeredEmoteElement \<Rightarrow> LayeredEmote list" where
  "getUniqueEmotes this = copy_if_NotDuplicate (m_emotes this) {} []"

definition LayeredEmoteElement_addToContainer ::
  "Env \<Rightarrow> LayeredEmoteElement \<Rightarrow> MessageLayoutContainer \<Rightarrow> MessageElementFlags
     \<Rightarrow> LayeredEmoteElement \<times> MessageLayoutContainer" where
  "LayeredEmoteElement_addToContainer env this container flags =
     (if hasAny flags (getFlags this) then
        (if has flags (EmoteImages (flag env)) then
           (let imgs = getLoadedImages this (getScale container)
            in if imgs = [] then (this, container)
               else
                 (let overallScale = floatMul env (emoteScale env) (getScale container);
                      largestSize = scaleSize env (getBoundingBoxSize imgs) overallScale;
                      individualSizes =
                        map (\<lambda>img. scaleSize env \<lparr>size_width = img_width img, size_height = img_height img\<rparr>
                                     overallScale) imgs
                  in (this, addElement container
                              ((newLayoutElement this (LayeredImageLayout imgs individualSizes) largestSize)
                                 \<lparr>le_link := getLink this\<rparr>))))
         else
           (case le_textElement this of
              Some te \<Rightarrow>
                (case TextElement_addToContainer env te container (Misc (flag env)) of
                   (te', c) \<Rightarrow> (this\<lparr>le_textElement := Some te'\<rparr>, c))
            | None \<Rightarrow> (this, container)))
      else (this, container))"

definition LayeredEmoteElement_clone :: "Env \<Rightarrow> LayeredEmoteElement \<Rightarrow> LayeredEmoteElement" where
  "LayeredEmoteElement_clone env this =
     cloneFrom (newLayeredEmoteElement env (getEmotes this) (getFlags this) (m_textElementColor this)) this"

text \<open>
  Badges.  \<^verbatim>\<open>ModBadgeElement\<close> and \<^verbatim>\<open>VipBadgeElement\<close> add no member to
  \<^verbatim>\<open>BadgeElement\<close>; the virtual \<^verbatim>\<open>makeImageLayoutElement\<close> is a parameter of
  the inherited \<^verbatim>\<open>addToContainer\<close>.
\<close>

record BadgeElement = MessageElement +
  b_emote :: EmotePtr

record FfzBadgeElement = BadgeElement +
  ffz_color :: QColor

definition newBadgeElement :: "EmotePtr \<Rightarrow> MessageElementFlags \<Rightarrow> BadgeElement" where
  "newBadgeElement e f =
     setTooltip (MessageElement.extend (newMessageElement f) (BadgeElement.fields e)) (tooltip (emote e))"

definition newFfzBadgeElement :: "EmotePtr \<Rightarrow> MessageElementFlags \<Rightarrow> QColor \<Rightarrow> FfzBadgeElement" where
  "newFfzBadgeElement e f color = BadgeElement.extend (newBadgeElement e f) (FfzBadgeElement.fields color)"

definition BadgeElement_addToContainer ::
  "Env \<Rightarrow> ('a BadgeElement_scheme \<Rightarrow> Image \<Rightarrow> QSize \<Rightarrow> MessageLayoutElement)
     \<Rightarrow> 'a BadgeElement_scheme \<Rightarrow> MessageLayoutContainer \<Rightarrow> MessageElementFlags
     \<Rightarrow> MessageLayoutContainer" where
  "BadgeElement_addToContainer env makeImageLayoutElement this container flags =
     (if hasAny flags (getFlags this) then
        (let img = images (emote (b_emote this)) (getScale container)
         in if isEmpty img then container
            else
              (let size = \<lparr>size_width = toInt (floatMul env (getScale container)
                                                  (floatOfInt env (img_width img))),
                           size_height = toInt (floatMul env (getScale container)
                                                   (floatOfInt env (img_height img)))\<rparr>
               in addElement container (makeImageLayoutElement this img size)))
      else container)"

definition BadgeElement_makeImageLayoutElement ::
  "'a BadgeElement_scheme \<Rightarrow> Image \<Rightarrow> QSize \<Rightarrow> MessageLayoutElement" where
  "BadgeElement_makeImageLayoutElement this img sz =
     (newLayoutElement this (ImageLayout img) sz)\<lparr>le_link := getLink this\<rparr>"

definition modBadgeBackgroundColor :: QColor where
  "modBadgeBackgroundColor = 0x34AE0A"

definition ModBadgeElement_makeImageLayoutElement ::
  "BadgeElement \<Rightarrow> Image \<Rightarrow> QSize \<Rightarrow> MessageLayoutElement" where
  "ModBadgeElement_makeImageLayoutElement this img sz =
     (newLayoutElement this (ImageWithBackgroundLayout img modBadgeBackgroundColor) sz)
       \<lparr>le_link := getLink this\<rparr>"

definition VipBadgeElement_makeImageLayoutElement ::
  "BadgeElement \<Rightarrow> Image \<Rightarrow> QSize \<Rightarrow> MessageLayoutElement" where
  "VipBadgeElement_makeImageLayoutElement this img sz =
     (newLayoutElement this (ImageLayout img) sz)\<lparr>le_link := getLink this\<rparr>"

definition FfzBadgeElement_makeImageLayoutElement ::
  "FfzBadgeElement \<Rightarrow> Image \<Rightarrow> QSize \<Rightarrow> MessageLayoutElement" where
  "FfzBadgeElement_makeImageLayoutElement this img sz =
     (newLayoutElement this (ImageWithBackgroundLayout img (ffz_color this)) sz)
       \<lparr>le_link := getLink this\<rparr>"

definition BadgeElement_clone :: "BadgeElement \<Rightarrow> BadgeElement" where
  "BadgeElement_clone this = cloneFrom (newBadgeElement (b_emote this) (getFlags this)) this"

definition FfzBadgeElement_clone :: "FfzBadgeElement \<Rightarrow> FfzBadgeElement" where
  "FfzBadgeElement_clone this =
     cloneFrom (newFfzBadgeElement (b_emote this) (getFlags this) (ffz_color this)) this"

section \<open>Timestamp, moderation row, line break, scaling image, reply curve\<close>

record TimestampElement = MessageElement +
  m_time :: QTime
  m_element :: TextElement
  m_format :: QString

definition formatTime :: "Env \<Rightarrow> QTime \<Rightarrow> TextElement" where
  "formatTime env time =
     newTextElement (localeToString env time (timestampFormat env)) (Timestamp (flag env))
       System ChatMedium"

definition newTimestampElement :: "Env \<Rightarrow> QTime \<Rightarrow> TimestampElement" where
  "newTimestampElement env time =
     MessageElement.extend (newMessageElement (Timestamp (flag env)))
       (TimestampElement.fields time (formatTime env time) [])"

definition TimestampElement_addToContainer ::
  "Env \<Rightarrow> TimestampElement \<Rightarrow> MessageLayoutContainer \<Rightarrow> MessageElementFlags
     \<Rightarrow> TimestampElement \<times> MessageLayoutContainer" where
  "TimestampElement_addToContainer env this container flags =
     (if hasAny flags (getFlags this) then
        (let this1 =
           (if timestampFormat env \<noteq> m_format this
            then this\<lparr>m_format := timestampFormat env, m_element := formatTime env (m_time this)\<rparr>
            else this)
         in case TextElement_addToContainer env (m_element this1) container flags of
              (te, c) \<Rightarrow> (this1\<lparr>m_element := te\<rparr>, c))
      else (this, container))"

definition TimestampElement_clone :: "Env \<Rightarrow> TimestampElement \<Rightarrow> TimestampElement" where
  "TimestampElement_clone env this = cloneFrom (newTimestampElement env (m_time this)) this"

definition newTwitchModerationElement :: "Env \<Rightarrow> MessageElement" where
  "newTwitchModerationElement env = newMessageElement (ModeratorTools (flag env))"

fun moderationActionsLoop ::
  "MessageElement \<Rightarrow> QSize \<Rightarrow> ModerationAction list \<Rightarrow> MessageLayoutContainer \<Rightarrow> MessageLayoutContainer" where
  "moderationActionsLoop this sz [] container = container"
| "moderationActionsLoop this sz (action # rest) container =
     moderationActionsLoop this sz rest
       (case getImage action of
          Some img \<Rightarrow>
            addElement container
              ((newLayoutElement this (ImageLayout img) sz)
                 \<lparr>le_link := \<lparr>link_type = UserAction, link_value = getAction action\<rparr>\<rparr>)
        | None \<Rightarrow>
            addElement container
              ((newLayoutElement this
                  (TextIconLayout (getLine1 action) (getLine2 action) (getScale container)) sz)
                 \<lparr>le_link := \<lparr>link_type = UserAction, link_value = getAction action\<rparr>\<rparr>))"

definition TwitchModerationElement_addToContainer ::
  "Env \<Rightarrow> MessageElement \<Rightarrow> MessageLayoutContainer \<Rightarrow> MessageElementFlags \<Rightarrow> MessageLayoutContainer" where
  "TwitchModerationElement_addToContainer env this container flags =
     (if has flags (ModeratorTools (flag env)) then
        moderationActionsLoop this
          \<lparr>size_width = toInt (floatMul env (getScale container) 16),
           size_height = toInt (floatMul env (getScale container) 16)\<rparr>
          (moderationActions env) container
      else container)"

definition TwitchModerationElement_clone :: "Env \<Rightarrow> MessageElement \<Rightarrow> MessageElement" where
  "TwitchModerationElement_clone env this = cloneFrom (newTwitchModerationElement env) this"

definition LinebreakElement_addToContainer ::
  "MessageElement \<Rightarrow> MessageLayoutContainer \<Rightarrow> MessageElementFlags \<Rightarrow> MessageLayoutContainer" where
  "LinebreakElement_addToContainer this container flags =
     (if hasAny flags (getFlags this) then breakLine container else container)"

definition LinebreakElement_clone :: "MessageElement \<Rightarrow> MessageElement" where
  "LinebreakElement_clone this = cloneFrom (newMessageElement (getFlags this)) this"

record ScalingImageElement = MessageElement +
  m_images :: ImageSet

definition newScalingImageElement :: "ImageSet \<Rightarrow> MessageElementFlags \<Rightarrow> ScalingImageElement" where
  "newScalingImageElement imgs f =
     MessageElement.extend (newMessageElement f) (ScalingImageElement.fields imgs)"

definition ScalingImageElement_addToContainer ::
  "Env \<Rightarrow> ScalingImageElement \<Rightarrow> MessageLayoutContainer \<Rightarrow> MessageElementFlags
     \<Rightarrow> MessageLayoutContainer" where
  "ScalingImageElement_addToContainer env this container flags =
     (if hasAny flags (getFlags this) then
        (let img = m_images this (getScale container)
         in if isEmpty img then container
            else
              (let size = \<lparr>size_width = toInt (floatMul env (floatOfInt env (img_width img))
                                                  (getScale container)),
                           size_height = toInt (floatMul env (floatOfInt env (img_height img))
                                                   (getScale container))\<rparr>
               in addElement container
                    ((newLayoutElement this (ImageLayout img) size)\<lparr>le_link := getLink this\<rparr>)))
      else container)"

definition ScalingImageElement_clone :: "ScalingImageElement \<Rightarrow> ScalingImageElement" where
  "ScalingImageElement_clone this =
     cloneFrom (newScalingImageElement (m_images this) (getFlags this)) this"

text \<open>
  The reply curve: overall width 18, pen width 1.5, corner radius 6, margin 2, each
  times the scale.  The primitive's rectangle is the scaled width; its height is set
  by the primitive's constructor, which is not part of the sources, and is left 0.
\<close>

definition newReplyCurveElement :: "Env \<Rightarrow> MessageElement" where
  "newReplyCurveElement env = newMessageElement (RepliedMessage (flag env))"

definition ReplyCurveElement_addToContainer ::
  "Env \<Rightarrow> MessageElement \<Rightarrow> MessageLayoutContainer \<Rightarrow> MessageElementFlags
     \<Rightarrow> MessageLayoutContainer" where
  "ReplyCurveElement_addToContainer env this container flags =
     (if hasAny flags (getFlags this) then
        (let scale = getScale container
         in addElement container
              (newLayoutElement this
                 (ReplyCurveLayout (floatMul env (3 / 2) scale) (floatMul env 6 scale)
                    (floatMul env 2 scale))
                 \<lparr>size_width = toInt (floatMul env 18 scale), size_height = 0\<rparr>))
      else container)"

definition ReplyCurveElement_clone :: "Env \<Rightarrow> MessageElement \<Rightarrow> MessageElement" where
  "ReplyCurveElement_clone env this = cloneFrom (newReplyCurveElement env) this"


section \<open>The element variants and virtual dispatch\<close>

datatype Element =
    EmptyEl MessageElement
  | ImageEl ImageElement
  | CircularImageEl CircularImageElement
  | EmoteEl EmoteElement
  | LayeredEmoteEl LayeredEmoteElement
  | BadgeEl BadgeElement
  | ModBadgeEl BadgeElement
  | VipBadgeEl BadgeElement
  | FfzBadgeEl FfzBadgeElement
  | TextEl TextElement
  | SingleLineTextEl TextElement
  | TimestampEl TimestampElement
  | TwitchModerationEl MessageElement
  | LinebreakEl MessageElement
  | ScalingImageEl ScalingImageElement
  | ReplyCurveEl MessageElement

fun addToContainer ::
  "Env \<Rightarrow> Element \<Rightarrow> MessageLayoutContainer \<Rightarrow> MessageElementFlags \<Rightarrow> Element \<times> MessageLayoutContainer" where
  "addToContainer env (EmptyEl e) c f = (EmptyEl e, EmptyElement_addToContainer e c f)"
| "addToContainer env (ImageEl e) c f = (ImageEl e, ImageElement_addToContainer env e c f)"
| "addToContainer env (CircularImageEl e) c f = (CircularImageEl e, CircularImageElement_addToContainer env e c f)"
| "addToContainer env (EmoteEl e) c f =
     (case EmoteElement_addToContainer env e c f of (e', c') \<Rightarrow> (EmoteEl e', c'))"
| "addToContainer env (LayeredEmoteEl e) c f =
     (case LayeredEmoteElement_addToContainer env e c f of (e', c') \<Rightarrow> (LayeredEmoteEl e', c'))"
| "addToContainer env (BadgeEl e) c f =
     (BadgeEl e, BadgeElement_addToContainer env BadgeElement_makeImageLayoutElement e c f)"
| "addToContainer env (ModBadgeEl e) c f =
     (ModBadgeEl e, BadgeElement_addToContainer env ModBadgeElement_makeImageLayoutElement e c f)"
| "addToContainer env (VipBadgeEl e) c f =
     (VipBadgeEl e, BadgeElement_addToContainer env VipBadgeElement_makeImageLayoutElement e c f)"
| "addToContainer env (FfzBadgeEl e) c f =
     (FfzBadgeEl e, BadgeElement_addToContainer env FfzBadgeElement_makeImageLayoutElement e c f)"
| "addToContainer env (TextEl e) c f =
     (case TextElement_addToContainer env e c f of (e', c') \<Rightarrow> (TextEl e', c'))"
| "addToContainer env (SingleLineTextEl e) c f =
     (SingleLineTextEl e, SingleLineTextElement_addToContainer env e c f)"
| "addToContainer env (TimestampEl e) c f =
     (case TimestampElement_addToContainer env e c f of (e', c') \<Rightarrow> (TimestampEl e', c'))"
| "addToContainer env (TwitchModerationEl e) c f =
     (TwitchModerationEl e, TwitchModerationElement_addToContainer env e c f)"
| "addToContainer env (LinebreakEl e) c f = (LinebreakEl e, LinebreakElement_addToContainer e c f)"
| "addToContainer env (ScalingImageEl e) c f = (ScalingImageEl e, ScalingImageElement_addToContainer env e c f)"
| "addToContainer env (ReplyCurveEl e) c f = (ReplyCurveEl e, ReplyCurveElement_addToContainer env e c f)"

fun clone :: "Env \<Rightarrow> Element \<Rightarrow> Element option" where
  "clone env (EmptyEl e) = Some (EmptyEl (EmptyElement_clone e))"
| "clone env (ImageEl e) = Some (ImageEl (ImageElement_clone e))"
| "clone env (CircularImageEl e) = Some (CircularImageEl (CircularImageElement_clone e))"
| "clone env (EmoteEl e) = map_option EmoteEl (EmoteElement_clone env e)"
| "clone env (LayeredEmoteEl e) = Some (LayeredEmoteEl (LayeredEmoteElement_clone env e))"
| "clone env (BadgeEl e) = Some (BadgeEl (BadgeElement_clone e))"
| "clone env (ModBadgeEl e) = Some (ModBadgeEl (BadgeElement_clone e))"
| "clone env (VipBadgeEl e) = Some (VipBadgeEl (BadgeElement_clone e))"
| "clone env (FfzBadgeEl e) = Some (FfzBadgeEl (FfzBadgeElement_clone e))"
| "clone env (TextEl e) = Some (TextEl (TextElement_clone e))"
| "clone env (SingleLineTextEl e) = Some (SingleLineTextEl (SingleLineTextElement_clone e))"
| "clone env (TimestampEl e) = Some (TimestampEl (TimestampElement_clone env e))"
| "clone env (TwitchModerationEl e) = Some (TwitchModerationEl (TwitchModerationElement_clone env e))"
| "clone env (LinebreakEl e) = Some (LinebreakEl (LinebreakElement_clone e))"
| "clone env (ScalingImageEl e) = Some (ScalingImageEl (ScalingImageElement_clone e))"
| "clone env (ReplyCurveEl e) = Some (ReplyCurveEl (ReplyCurveElement_clone env e))"

text \<open>The \<^verbatim>\<open>MessageElement\<close> subobject of an element of any class.\<close>

fun base :: "Element \<Rightarrow> MessageElement" where
  "base (EmptyEl e) = e"
| "base (ImageEl e) = MessageElement.truncate e"
| "base (CircularImageEl e) = MessageElement.truncate e"
| "base (EmoteEl e) = MessageElement.truncate e"
| "base (LayeredEmoteEl e) = MessageElement.truncate e"
| "base (BadgeEl e) = MessageElement.truncate e"
| "base (ModBadgeEl e) = MessageElement.truncate e"
| "base (VipBadgeEl e) = MessageElement.truncate e"
| "base (FfzBadgeEl e) = MessageElement.truncate e"
| "base (TextEl e) = MessageElement.truncate e"
| "base (SingleLineTextEl e) = MessageElement.truncate e"
| "base (TimestampEl e) = MessageElement.truncate e"
| "base (TwitchModerationEl e) = e"
| "base (LinebreakEl e) = e"
| "base (ScalingImageEl e) = MessageElement.truncate e"
| "base (ReplyCurveEl e) = e"

text \<open>
  What the constructors establish and the public setters keep: an emote element owns
  its fallback text element, and the flags of a moderation element include
  \<^verbatim>\<open>ModeratorTools\<close> (flags are only ever added).
\<close>

fun classInvariant :: "Env \<Rightarrow> Element \<Rightarrow> bool" where
  "classInvariant env (EmoteEl e) = (m_textElement e \<noteq> None)"
| "classInvariant env (TwitchModerationEl e) =
     (m_flags e AND ModeratorTools (flag env) = ModeratorTools (flag env))"
| "classInvariant env e = True"

text \<open>
  Elements live on the heap: an address is an index into the list of allocated
  elements, \<^verbatim>\<open>clone()\<close> allocates a new one, and a setter called through a pointer
  updates the element at that address.
\<close>

datatype Mutation =
    AddFlags MessageElementFlags
  | SetLink Link
  | SetTooltip QString
  | SetText QString

fun mutate :: "Mutation \<Rightarrow> 'a MessageElement_scheme \<Rightarrow> 'a MessageElement_scheme" where
  "mutate (AddFlags f) e = addFlags e f"
| "mutate (SetLink l) e = setLink e l"
| "mutate (SetTooltip t) e = setTooltip e t"
| "mutate (SetText t) e = setText e t"

fun mutateElement :: "Mutation \<Rightarrow> Element \<Rightarrow> Element" where
  "mutateElement m (EmptyEl e) = EmptyEl (mutate m e)"
| "mutateElement m (ImageEl e) = ImageEl (mutate m e)"
| "mutateElement m (CircularImageEl e) = CircularImageEl (mutate m e)"
| "mutateElement m (EmoteEl e) = EmoteEl (mutate m e)"
| "mutateElement m (LayeredEmoteEl e) = LayeredEmoteEl (mutate m e)"
| "mutateElement m (BadgeEl e) = BadgeEl (mutate m e)"
| "mutateElement m (ModBadgeEl e) = ModBadgeEl (mutate m e)"
| "mutateElement m (VipBadgeEl e) = VipBadgeEl (mutate m e)"
| "mutateElement m (FfzBadgeEl e) = FfzBadgeEl (mutate m e)"
| "mutateElement m (TextEl e) = TextEl (mutate m e)"
| "mutateElement m (SingleLineTextEl e) = SingleLineTextEl (mutate m e)"
| "mutateElement m (TimestampEl e) = TimestampEl (mutate m e)"
| "mutateElement m (TwitchModerationEl e) = TwitchModerationEl (mutate m e)"
| "mutateElement m (LinebreakEl e) = LinebreakEl (mutate m e)"
| "mutateElement m (ScalingImageEl e) = ScalingImageEl (mutate m e)"
| "mutateElement m (ReplyCurveEl e) = ReplyCurveEl (mutate m e)"

type_synonym Heap = "Element list"

definition cloneAt :: "Env \<Rightarrow> Heap \<Rightarrow> nat \<Rightarrow> (nat \<times> Heap) option" where
  "cloneAt env h a =
     (if a < length h then
        (case clone env (h ! a) of
           Some e \<Rightarrow> Some (length h, h @ [e])
         | None \<Rightarrow> None)
      else None)"

definition mutateAt :: "Heap \<Rightarrow> nat \<Rightarrow> Mutation \<Rightarrow> Heap" where
  "mutateAt h a m = (if a < length h then h[a := mutateElement m (h ! a)] else h)"

section \<open>The 7TV URL paint\<close>

record QRectF =
  rf_x :: rat
  rf_y :: rat
  rf_width :: rat
  rf_height :: rat

record QRect =
  r_x :: int
  r_y :: int
  r_width :: int
  r_height :: int

definition toRect :: "QRectF \<Rightarrow> QRect" where
  "toRect r =
     \<lparr>r_x = qRound (rf_x r), r_y = qRound (rf_y r),
      r_width = qRound (rf_x r + rf_width r) - qRound (rf_x r),
      r_height = qRound (rf_y r + rf_height r) - qRound (rf_y r)\<rparr>"

datatype QBrush = NoBrush | SolidBrush QColor | TextureBrush QPixmap

record UrlPaint =
  p_id :: QString
  p_name :: QString
  p_image :: Image
  p_dropShadows :: "nat list"

text \<open>
  \<^verbatim>\<open>UrlPaint::asBrush\<close>.  A pixmap is the term of the Qt operations that built it;
  \<open>Filled p c\<close> is a pixmap of the size of \<open>p\<close> filled with \<open>c\<close>.
\<close>

definition asBrush :: "UrlPaint \<Rightarrow> QColor \<Rightarrow> QRectF \<Rightarrow> QBrush" where
  "asBrush this userColor drawingRect =
     (case pixmapOrLoad (p_image this) of
        Some paintPixmap0 \<Rightarrow>
          (let rect = toRect drawingRect;
               paintPixmap = ScaledToWidth paintPixmap0 (r_width rect);
               userColorPixmap = DrawnOver (Filled paintPixmap userColor) 0 0 paintPixmap;
               combinedPixmap = Copied userColorPixmap 0 0 (r_width rect) (r_height rect)
           in TextureBrush combinedPixmap)
      | None \<Rightarrow> SolidBrush userColor)"


section \<open>Concrete inputs\<close>

text \<open>
  Inputs for the examples: a font in which every code unit is 10 pixels wide and an
  elided text keeps as many code units as fit before U+2026; flag bits chosen for the
  examples; an emote with a 28 by 28 image, one whose image is not loaded and one with
  a 100 by 28 image; float conversions and products that are exact; a tokenizer for
  which the word \<open>:\<close> is the first emote and the word \<open>;\<close> the wide one; a locale
  whose formatted time is the format string itself.
\<close>

definition exampleMetrics :: QFontMetrics where
  "exampleMetrics =
     \<lparr>horizontalAdvance = (\<lambda>s. 10 * int (length s)), height = 12,
      elidedText = (\<lambda>s w. if 10 * int (length s) \<le> w then s
                           else take (nat (w div 10) - 1) s @ [0x2026])\<rparr>"

definition exampleFlagNames :: FlagNames where
  "exampleFlagNames =
     \<lparr>Misc = 1, EmoteImages = 16, Timestamp = 8, ModeratorTools = 1024, RepliedMessage = 2048\<rparr>"

definition exampleImage :: Image where
  "exampleImage = \<lparr>img_width = 28, img_height = 28, isEmpty = False, pixmapOrLoad = None\<rparr>"

definition emptyImage :: Image where
  "emptyImage = \<lparr>img_width = 0, img_height = 0, isEmpty = True, pixmapOrLoad = None\<rparr>"

definition exampleEmote :: EmotePtr where
  "exampleEmote =
     \<lparr>addr = 1,
      emote = \<lparr>images = (\<lambda>scale. exampleImage), tooltip = [0x4B, 0x3C, 0x62, 0x72, 0x3E, 0x54],
               getCopyString = [0x4B]\<rparr>\<rparr>"

definition unloadedEmote :: EmotePtr where
  "unloadedEmote =
     \<lparr>addr = 2,
      emote = \<lparr>images = (\<lambda>scale. emptyImage), tooltip = [0x4C, 0x3C, 0x62, 0x72, 0x3E, 0x54],
               getCopyString = [0x4C]\<rparr>\<rparr>"

definition wideEmote :: EmotePtr where
  "wideEmote =
     \<lparr>addr = 3,
      emote = \<lparr>images = (\<lambda>scale. \<lparr>img_width = 100, img_height = 28, isEmpty = False,
                                  pixmapOrLoad = None\<rparr>),
               tooltip = [0x57, 0x3C, 0x62, 0x72, 0x3E, 0x54], getCopyString = [0x57]\<rparr>\<rparr>"

definition exampleEnv :: "QString \<Rightarrow> Env" where
  "exampleEnv fmt =
     \<lparr>flag = exampleFlagNames, getFontMetrics = (\<lambda>style scale. exampleMetrics),
      getColor = (\<lambda>color. 0), normalizeColor = (\<lambda>color. color), emoteScale = 1,
      floatOfInt = of_int, floatMul = (\<lambda>a b. a * b), scaleSize = mulSize,
      timestampFormat = fmt, moderationActions = [],
      parse = (\<lambda>s. if s = [0x3A] then [ParsedEmote exampleEmote]
                   else if s = [0x3B] then [ParsedEmote wideEmote] else [ParsedText s]),
      localeToString = (\<lambda>time format. format)\<rparr>"

definition exampleContainer :: "int \<Rightarrow> MessageLayoutContainer" where
  "exampleContainer w =
     \<lparr>c_scale = 1, c_width = w, spaceWidth = 4, currentX = 0, line = 0, lineStart = 0,
      elements = [], first = Neutral\<rparr>"

definition duplicatedLayers :: LayeredEmoteElement where
  "duplicatedLayers =
     newLayeredEmoteElement (exampleEnv [])
       [\<lparr>ptr = exampleEmote, layer_flags = 16\<rparr>, \<lparr>ptr = wideEmote, layer_flags = 16\<rparr>,
        \<lparr>ptr = exampleEmote, layer_flags = 48\<rparr>] 16 TextColor"

definition unloadedPaint :: UrlPaint where
  "unloadedPaint = \<lparr>p_id = [0x31], p_name = [0x70], p_image = emptyImage, p_dropShadows = []\<rparr>"

definition exampleTimestamp :: TimestampElement where
  "exampleTimestamp = newTimestampElement (exampleEnv [0x68]) 5"

definition exampleHeap :: Heap where
  "exampleHeap =
     [EmoteEl (setLink (newEmoteElement (exampleEnv []) exampleEmote 48 TextColor)
                 \<lparr>link_type = Url, link_value = [0x75]\<rparr>)]"

definition unloadedEmoteElement :: EmoteElement where
  "unloadedEmoteElement = newEmoteElement (exampleEnv []) unloadedEmote 48 TextColor"

definition overflowingLine :: TextElement where
  "overflowingLine = newTextElement [0x61, 0x62, 0x20, 0x3B, 0x20, 0x63] 1 TextColor ChatMedium"



section \<open>Text wrapping\<close>

lemmas example_defs =
  exampleEnv_def exampleFlagNames_def exampleMetrics_def exampleContainer_def
  exampleEmote_def wideEmote_def unloadedEmote_def exampleImage_def emptyImage_def

lemmas element_defs =
  newTextElement_def newMessageElement_def MessageElement.extend_def TextElement.fields_def
  hasAny_def has_def getFlags_def getLink_def getScale_def hasTrailingSpace_def
  fitsInLine_def remainingWidth_def atStartOfLine_def breakLine_def addElementNoLineBreak_def
  addElement_def getTextLayoutElement_def newLayoutElement_def noLink_def

declare wrapLoop.simps [simp del]

lemma container_simps [simp]:
  "elements (breakLine c) = elements c"
  "c_width (breakLine c) = c_width c"
  "spaceWidth (breakLine c) = spaceWidth c"
  "c_scale (breakLine c) = c_scale c"
  "currentX (breakLine c) = 0"
  "line (breakLine c) = Suc (line c)"
  "first (breakLine c) = first c"
  "elements (addElementNoLineBreak c e) = elements c @ [e]"
  "c_width (addElementNoLineBreak c e) = c_width c"
  "spaceWidth (addElementNoLineBreak c e) = spaceWidth c"
  "c_scale (addElementNoLineBreak c e) = c_scale c"
  "line (addElementNoLineBreak c e) = line c"
  "first (addElementNoLineBreak c e) = first c"
  "currentX (addElementNoLineBreak c e) =
     currentX c + size_width (le_size e) + (if le_trailingSpace e then spaceWidth c else 0)"
  by (simp_all add: breakLine_def addElementNoLineBreak_def)

lemma wrapLoop_step:
  assumes "i < length t"
  shows "wrapLoop mk metrics t i ws w c =
     (if fitsInLine c (w + charWidthAt metrics t i)
      then wrapLoop mk metrics t (if length t > i + 1 \<and> isHighSurrogate (t ! i) then i + 2 else i + 1)
             ws (w + charWidthAt metrics t i) c
      else wrapLoop mk metrics t (if length t > i + 1 \<and> isHighSurrogate (t ! i) then i + 2 else i + 1)
             i (charWidthAt metrics t i)
             (breakLine (addElementNoLineBreak c (mk (mid t ws (i - ws)) w False))))"
  using assms by (subst wrapLoop.simps) (simp add: Let_def)

lemma wrapLoop_done: "\<not> i < length t \<Longrightarrow> wrapLoop mk metrics t i ws w c = (ws, w, c)"
  by (subst wrapLoop.simps) simp

lemma wrapLoop_frame:
  "(case wrapLoop mk metrics t i ws w c of (ws', w', c') \<Rightarrow>
       \<exists>new. elements c' = elements c @ new \<and> (\<forall>e\<in>set new. \<exists>s u. e = mk s u False)
          \<and> c_width c' = c_width c \<and> spaceWidth c' = spaceWidth c \<and> c_scale c' = c_scale c
          \<and> line c \<le> line c' \<and> first c' = first c)"
proof (induction mk metrics t i ws w c rule: wrapLoop.induct)
  case (1 mk metrics t i ws w c)
  show ?case
  proof (cases "i < length t")
    case False
    then show ?thesis by (simp add: wrapLoop_done)
  next
    case True
    define cw where "cw = charWidthAt metrics t i"
    define ni where "ni = (if length t > i + 1 \<and> isHighSurrogate (t ! i) then i + 2 else i + 1)"
    show ?thesis
    proof (cases "fitsInLine c (w + cw)")
      case fits: True
      have eq: "wrapLoop mk metrics t i ws w c = wrapLoop mk metrics t ni ws (w + cw) c"
        using fits by (simp add: wrapLoop_step[OF True] cw_def ni_def)
      from "1.IH"(2)[OF True refl cw_def ni_def] fits
      show ?thesis unfolding eq by simp
    next
      case nofit: False
      let ?e = "mk (mid t ws (i - ws)) w False"
      let ?c' = "breakLine (addElementNoLineBreak c ?e)"
      have eq: "wrapLoop mk metrics t i ws w c = wrapLoop mk metrics t ni i cw ?c'"
        using nofit by (simp add: wrapLoop_step[OF True] cw_def ni_def)
      obtain ws' w' c' where r: "wrapLoop mk metrics t ni i cw ?c' = (ws', w', c')"
        by (cases "wrapLoop mk metrics t ni i cw ?c'") auto
      from "1.IH"(1)[OF True refl cw_def ni_def nofit] r
      obtain new where n: "elements c' = elements ?c' @ new"
         "\<forall>e\<in>set new. \<exists>s u. e = mk s u False"
         "c_width c' = c_width c" "spaceWidth c' = spaceWidth c" "c_scale c' = c_scale c"
         "line ?c' \<le> line c'" "first c' = first c"
        by auto
      have "elements c' = elements c @ (?e # new)" using n(1) by simp
      moreover have "\<forall>e\<in>set (?e # new). \<exists>s u. e = mk s u False" using n(2) by auto
      moreover have "line c \<le> line c'" using n(6) by simp
      ultimately show ?thesis unfolding eq r using n(3,4,5,7) by simp
    qed
  qed
qed





lemma addWord_whole:
  assumes "\<not> splitsCharacterWise metrics c word"
  shows "\<exists>c1. (c1 = c \<or> c1 = breakLine c)
     \<and> fitsInLine c1 (horizontalAdvance metrics (word_text word))
     \<and> snd (addWord mk metrics tr c word) =
         addElementNoLineBreak c1 (mk (word_text word) (horizontalAdvance metrics (word_text word)) tr)"
  using assms by (auto simp: splitsCharacterWise_def addWord_def Let_def)

lemma addWord_split:
  assumes "splitsCharacterWise metrics c word"
  shows "\<exists>c1 ws wd c2. (c1 = c \<or> c1 = breakLine c)
     \<and> wrapLoop mk metrics (word_text word) 0 0 0 c1 = (ws, wd, c2)
     \<and> snd (addWord mk metrics tr c word) = addElementNoLineBreak c2 (mk (midFrom (word_text word) ws) wd tr)"
proof -
  let ?c1 = "if \<not> atStartOfLine c then breakLine c else c"
  obtain ws wd c2 where r: "wrapLoop mk metrics (word_text word) 0 0 0 ?c1 = (ws, wd, c2)"
    by (cases "wrapLoop mk metrics (word_text word) 0 0 0 ?c1") auto
  have "snd (addWord mk metrics tr c word) = addElementNoLineBreak c2 (mk (midFrom (word_text word) ws) wd tr)"
    using assms r by (auto simp: splitsCharacterWise_def addWord_def Let_def)
  moreover have "?c1 = c \<or> ?c1 = breakLine c" by simp
  ultimately show ?thesis using r by blast
qed





lemma addWord_frame:
  "\<exists>new. elements (snd (addWord mk metrics tr c word)) = elements c @ new
     \<and> c_width (snd (addWord mk metrics tr c word)) = c_width c
     \<and> spaceWidth (snd (addWord mk metrics tr c word)) = spaceWidth c
     \<and> c_scale (snd (addWord mk metrics tr c word)) = c_scale c"
proof (cases "splitsCharacterWise metrics c word")
  case False
  from addWord_whole[OF False, of mk tr] show ?thesis by auto
next
  case True
  from addWord_split[OF True, of mk tr] obtain c1 ws wd c2 where
    c1: "c1 = c \<or> c1 = breakLine c"
    and w: "wrapLoop mk metrics (word_text word) 0 0 0 c1 = (ws, wd, c2)"
    and r: "snd (addWord mk metrics tr c word) = addElementNoLineBreak c2 (mk (midFrom (word_text word) ws) wd tr)"
    by blast
  from wrapLoop_frame[where mk=mk and metrics=metrics and t="word_text word" and i=0 and ws=0 and w=0 and c=c1] w
  obtain new where n: "elements c2 = elements c1 @ new"
    "c_width c2 = c_width c1" "spaceWidth c2 = spaceWidth c1" "c_scale c2 = c_scale c1"
    by auto
  show ?thesis unfolding r using n c1 by auto
qed

lemma addWords_frame:
  "\<exists>new. elements (snd (addWords mk metrics tr c ws)) = elements c @ new
     \<and> c_width (snd (addWords mk metrics tr c ws)) = c_width c
     \<and> spaceWidth (snd (addWords mk metrics tr c ws)) = spaceWidth c
     \<and> c_scale (snd (addWords mk metrics tr c ws)) = c_scale c"
proof (induction ws arbitrary: c)
  case Nil
  show ?case by simp
next
  case (Cons word rest)
  obtain word' c' where a: "addWord mk metrics tr c word = (word', c')"
    by (cases "addWord mk metrics tr c word") auto
  have s: "snd (addWords mk metrics tr c (word # rest)) = snd (addWords mk metrics tr c' rest)"
    using a by (simp split: prod.splits)
  from addWord_frame[of mk metrics tr c word] a Cons.IH[of c']
  show ?case unfolding s by auto
qed
















lemma getTextLayoutElement_simps [simp]:
  "le_text (getTextLayoutElement env this color style metrics scale t w b) = t"
  "size_width (le_size (getTextLayoutElement env this color style metrics scale t w b)) = w"
  "le_trailingSpace (getTextLayoutElement env this color style metrics scale t w b) = b"
  "le_link (getTextLayoutElement env this color style metrics scale t w b) = getLink this"
  by (simp_all add: getTextLayoutElement_def newLayoutElement_def)



text \<open>
  The same loop on a word with a surrogate pair, each code unit 10 pixels wide, in a
  line 20 pixels wide: the pair stays in one fragment.
\<close>

lemma wrap_keeps_surrogate_pair_example:
  "map le_text (elements (snd (addWord
      (getTextLayoutElement (exampleEnv []) (newTextElement [] 1 TextColor ChatMedium)
         TextColor ChatMedium exampleMetrics 1)
      exampleMetrics True (exampleContainer 20)
      \<lparr>word_text = [0x61, 0xD83D, 0xDE00, 0x62], word_width = - 1\<rparr>)))
   = [[0x61], [0xD83D, 0xDE00], [0x62]]
   \<and> map le_trailingSpace (elements (snd (addWord
      (getTextLayoutElement (exampleEnv []) (newTextElement [] 1 TextColor ChatMedium)
         TextColor ChatMedium exampleMetrics 1)
      exampleMetrics True (exampleContainer 20)
      \<lparr>word_text = [0x61, 0xD83D, 0xDE00, 0x62], word_width = - 1\<rparr>)))
   = [False, False, True]"
  by (simp add: addWord_def Let_def wrapLoop_step wrapLoop_done charWidthAt_def
        isHighSurrogate_def mid_def midFrom_def element_defs example_defs)




section \<open>Layered emotes\<close>

lemma copy_if_NotDuplicate_index:
  "copy_if_NotDuplicate es seen unique =
     unique @ map (\<lambda>i. es ! i)
       (filter (\<lambda>i. addr (ptr (es ! i)) \<notin> seen \<union> (\<lambda>e. addr (ptr e)) ` set (take i es)) [0..<length es])"
proof (induction es arbitrary: seen unique)
  case Nil
  show ?case by simp
next
  case (Cons e es)
  let ?P = "\<lambda>s xs i. addr (ptr (xs ! i)) \<notin> s \<union> (\<lambda>e. addr (ptr e)) ` set (take i xs)"
  have upt: "[0..<length (e # es)] = 0 # map Suc [0..<length es]"
    by (simp add: upt_conv_Cons map_Suc_upt del: upt_Suc)
  have shift: "\<And>i. ?P seen (e # es) (Suc i) = ?P (insert (addr (ptr e)) seen) es i"
    by simp
  have tail: "map (\<lambda>i. (e # es) ! i) (filter (?P seen (e # es)) (map Suc [0..<length es]))
      = map (\<lambda>i. es ! i) (filter (?P (insert (addr (ptr e)) seen) es) [0..<length es])"
    by (auto simp: filter_map o_def intro!: arg_cong[where f="map ((!) es)"] filter_cong)
  show ?case
  proof (cases "addr (ptr e) \<in> seen")
    case True
    then have ins: "insert (addr (ptr e)) seen = seen" by auto
    have "copy_if_NotDuplicate (e # es) seen unique = copy_if_NotDuplicate es seen unique"
      using True by simp
    also have "\<dots> = unique @ map (\<lambda>i. es ! i) (filter (?P seen es) [0..<length es])"
      by (rule Cons.IH)
    also have "\<dots> = unique @ map (\<lambda>i. (e # es) ! i) (filter (?P seen (e # es)) [0..<length (e # es)])"
      unfolding upt using True tail ins by simp
    finally show ?thesis .
  next
    case False
    have "copy_if_NotDuplicate (e # es) seen unique =
        copy_if_NotDuplicate es (insert (addr (ptr e)) seen) (unique @ [e])"
      using False by simp
    also have "\<dots> = (unique @ [e]) @ map (\<lambda>i. es ! i) (filter (?P (insert (addr (ptr e)) seen) es) [0..<length es])"
      by (rule Cons.IH)
    also have "\<dots> = unique @ map (\<lambda>i. (e # es) ! i) (filter (?P seen (e # es)) [0..<length (e # es)])"
      unfolding upt using False tail by simp
    finally show ?thesis .
  qed
qed

lemma copy_if_NotDuplicate_distinct:
  "distinct (map (\<lambda>e. addr (ptr e)) unique) \<Longrightarrow> (\<lambda>e. addr (ptr e)) ` set unique \<subseteq> seen \<Longrightarrow>
   distinct (map (\<lambda>e. addr (ptr e)) (copy_if_NotDuplicate es seen unique))
   \<and> (\<lambda>e. addr (ptr e)) ` set (copy_if_NotDuplicate es seen unique)
       = (\<lambda>e. addr (ptr e)) ` set unique \<union> ((\<lambda>e. addr (ptr e)) ` set es - seen)"
proof (induction es arbitrary: seen unique)
  case Nil
  then show ?case by simp
next
  case (Cons e es)
  show ?case
  proof (cases "addr (ptr e) \<in> seen")
    case True
    with Cons.IH[OF Cons.prems] show ?thesis by auto
  next
    case False
    have d: "distinct (map (\<lambda>e. addr (ptr e)) (unique @ [e]))"
      using Cons.prems False by auto
    have s: "(\<lambda>e. addr (ptr e)) ` set (unique @ [e]) \<subseteq> insert (addr (ptr e)) seen"
      using Cons.prems by auto
    from Cons.IH[OF d s] False show ?thesis by auto
  qed
qed

text \<open>
  C7.  \<^verbatim>\<open>getUniqueEmotes\<close> returns exactly the layers that no earlier layer shares its
  emote pointer with, in layer order: so the identities in the result are distinct,
  they are the identities of the layer list, and they stand in the order of their
  first occurrence.  This holds for every layer list, with or without duplicates.
\<close>

theorem C7_getUniqueEmotes_first_occurrence_order:
  "getUniqueEmotes this =
     map (\<lambda>i. m_emotes this ! i)
       (filter (\<lambda>i. \<forall>j<i. addr (ptr (m_emotes this ! j)) \<noteq> addr (ptr (m_emotes this ! i)))
          [0..<length (m_emotes this)])
   \<and> distinct (map (\<lambda>e. addr (ptr e)) (getUniqueEmotes this))
   \<and> set (map (\<lambda>e. addr (ptr e)) (getUniqueEmotes this)) = set (map (\<lambda>e. addr (ptr e)) (m_emotes this))"
proof -
  let ?es = "m_emotes this"
  have tk: "\<And>i. i < length ?es \<Longrightarrow> set (take i ?es) = (\<lambda>j. ?es ! j) ` {0..<i}"
    by (rule nth_image[symmetric]) simp
  have "\<And>i. i < length ?es \<Longrightarrow>
      (addr (ptr (?es ! i)) \<notin> {} \<union> (\<lambda>e. addr (ptr e)) ` set (take i ?es))
      = (\<forall>j<i. addr (ptr (?es ! j)) \<noteq> addr (ptr (?es ! i)))"
    unfolding tk by (simp add: image_iff) (metis atLeastLessThan_iff zero_le)
  then have "filter (\<lambda>i. addr (ptr (?es ! i)) \<notin> {} \<union> (\<lambda>e. addr (ptr e)) ` set (take i ?es)) [0..<length ?es]
      = filter (\<lambda>i. \<forall>j<i. addr (ptr (?es ! j)) \<noteq> addr (ptr (?es ! i))) [0..<length ?es]"
    by (intro filter_cong) auto
  then have a: "getUniqueEmotes this = map (\<lambda>i. ?es ! i)
       (filter (\<lambda>i. \<forall>j<i. addr (ptr (?es ! j)) \<noteq> addr (ptr (?es ! i))) [0..<length ?es])"
    unfolding getUniqueEmotes_def copy_if_NotDuplicate_index by simp
  from copy_if_NotDuplicate_distinct[of "[]" "{}" ?es]
  have b: "distinct (map (\<lambda>e. addr (ptr e)) (getUniqueEmotes this))"
    "set (map (\<lambda>e. addr (ptr e)) (getUniqueEmotes this)) = set (map (\<lambda>e. addr (ptr e)) ?es)"
    by (simp_all add: getUniqueEmotes_def)
  from a b show ?thesis by blast
qed

lemma updateTooltips_fields [simp]:
  "m_emotes (updateTooltips env this) = m_emotes this"
  "getEmoteTooltips (updateTooltips env this) = map (\<lambda>e. tooltip (emote (ptr e))) (m_emotes this)"
  "m_emotes this \<noteq> [] \<Longrightarrow> getTooltip (updateTooltips env this) = LayeredEmoteElement_getCopyString this"
  "m_emotes this = [] \<Longrightarrow> getTooltip (updateTooltips env this) = getTooltip this"
  by (simp_all add: updateTooltips_def Let_def getEmoteTooltips_def getTooltip_def setTooltip_def)

lemma newLayeredEmoteElement_emotes [simp]:
  "m_emotes (newLayeredEmoteElement env emotes f color) = emotes"
  by (simp add: newLayeredEmoteElement_def MessageElement.extend_def LayeredEmoteElement.fields_def)

theorem C7_getUniqueEmotes_first_occurrence_order_witness:
  "distinct (map (\<lambda>e. addr (ptr e)) (getUniqueEmotes duplicatedLayers))
   \<and> set (map (\<lambda>e. addr (ptr e)) (getUniqueEmotes duplicatedLayers)) = {1, 3}"
proof -
  have "map (\<lambda>e. addr (ptr e)) (m_emotes duplicatedLayers) = [1, 3, 1]"
    by (simp add: duplicatedLayers_def exampleEmote_def wideEmote_def)
  then have st: "set (map (\<lambda>e. addr (ptr e)) (m_emotes duplicatedLayers)) = {1, 3}"
    by auto
  note t = C7_getUniqueEmotes_first_occurrence_order[of duplicatedLayers]
  from t have d: "distinct (map (\<lambda>e. addr (ptr e)) (getUniqueEmotes duplicatedLayers))"
    by blast
  from t have s: "set (map (\<lambda>e. addr (ptr e)) (getUniqueEmotes duplicatedLayers))
      = set (map (\<lambda>e. addr (ptr e)) (m_emotes duplicatedLayers))"
    by blast
  show ?thesis using d s st by (simp only: simp_thms)
qed

lemma getUniqueEmotes_example:
  "getUniqueEmotes duplicatedLayers = [\<lparr>ptr = exampleEmote, layer_flags = 16\<rparr>, \<lparr>ptr = wideEmote, layer_flags = 16\<rparr>]"
  by (simp add: getUniqueEmotes_def duplicatedLayers_def exampleEmote_def wideEmote_def)

lemma joinWithSpace_Cons:
  "joinWithSpace (x # xs) = x @ concat (map (\<lambda>y. 0x20 # y) xs)"
  by (induction xs arbitrary: x) simp_all

lemma copyStringLoop_Suc:
  "copyStringLoop es (Suc i) r = r @ concat (map (\<lambda>e. 0x20 # getCopyString (emote (ptr e))) es)"
  by (induction es arbitrary: i r) simp_all

lemma getCopyString_join:
  "LayeredEmoteElement_getCopyString this =
     joinWithSpace (map (\<lambda>e. getCopyString (emote (ptr e))) (m_emotes this))"
proof (cases "m_emotes this")
  case Nil
  then show ?thesis by (simp add: LayeredEmoteElement_getCopyString_def)
next
  case (Cons e es)
  then show ?thesis
    by (simp add: LayeredEmoteElement_getCopyString_def copyStringLoop_Suc joinWithSpace_Cons o_def)
qed

text \<open>
  C4, as amended.  After construction with a non-empty layer list, and after every
  \<^verbatim>\<open>addEmoteLayer\<close>, the tooltip of a layered emote element is the space-joined
  concatenation of the layers' copy strings, in layer order; the layers' tooltip
  texts are kept apart from it, unjoined and in layer order, in \<^verbatim>\<open>getEmoteTooltips\<close>.
\<close>

theorem C4_tooltip_joins_copy_strings:
  "(emotes \<noteq> [] \<longrightarrow>
      getTooltip (newLayeredEmoteElement env emotes f color)
        = joinWithSpace (map (\<lambda>e. getCopyString (emote (ptr e))) emotes))
   \<and> getEmoteTooltips (newLayeredEmoteElement env emotes f color)
        = map (\<lambda>e. tooltip (emote (ptr e))) emotes
   \<and> getTooltip (addEmoteLayer env this e)
        = joinWithSpace (map (\<lambda>e. getCopyString (emote (ptr e))) (m_emotes this @ [e]))
   \<and> getEmoteTooltips (addEmoteLayer env this e)
        = map (\<lambda>e. tooltip (emote (ptr e))) (m_emotes this @ [e])
   \<and> getEmotes (addEmoteLayer env this e) = m_emotes this @ [e]"
  by (simp add: newLayeredEmoteElement_def addEmoteLayer_def getCopyString_join getEmotes_def
        MessageElement.extend_def LayeredEmoteElement.fields_def)

theorem C4_tooltip_joins_copy_strings_witness:
  "[\<lparr>ptr = exampleEmote, layer_flags = 16\<rparr>] \<noteq> []
   \<and> getTooltip (newLayeredEmoteElement (exampleEnv []) [\<lparr>ptr = exampleEmote, layer_flags = 16\<rparr>] 16 TextColor)
       = [0x4B]
   \<and> getTooltip (addEmoteLayer (exampleEnv [])
        (newLayeredEmoteElement (exampleEnv []) [\<lparr>ptr = exampleEmote, layer_flags = 16\<rparr>] 16 TextColor)
        \<lparr>ptr = wideEmote, layer_flags = 16\<rparr>) = [0x4B, 0x20, 0x57]"
  using C4_tooltip_joins_copy_strings[of "[\<lparr>ptr = exampleEmote, layer_flags = 16\<rparr>]" "exampleEnv []" 16 TextColor
     "newLayeredEmoteElement (exampleEnv []) [\<lparr>ptr = exampleEmote, layer_flags = 16\<rparr>] 16 TextColor"
     "\<lparr>ptr = wideEmote, layer_flags = 16\<rparr>"]
  by (simp add: exampleEmote_def wideEmote_def)

text \<open>
  C4 as stated fails: for a single layer whose tooltip text differs from its copy
  string, the element's tooltip is not the joined tooltip texts.
\<close>

theorem C4_tooltip_is_not_joined_tooltips:
  "getTooltip (newLayeredEmoteElement (exampleEnv []) [\<lparr>ptr = exampleEmote, layer_flags = 16\<rparr>] 16 TextColor)
     \<noteq> joinWithSpace (map (\<lambda>e. tooltip (emote (ptr e))) [\<lparr>ptr = exampleEmote, layer_flags = 16\<rparr>])"
  by (simp add: newLayeredEmoteElement_def LayeredEmoteElement_getCopyString_def exampleEmote_def
        MessageElement.extend_def LayeredEmoteElement.fields_def)

section \<open>The URL paint\<close>

text \<open>
  C10.  \<^verbatim>\<open>asBrush\<close> never returns the empty brush: when the pixmap of the paint's image
  is not loaded the brush is solid and of exactly the user colour, and when it is
  loaded the brush is a texture.
\<close>

theorem C10_asBrush_falls_back_to_user_color:
  "asBrush this userColor drawingRect \<noteq> NoBrush
   \<and> (pixmapOrLoad (p_image this) = None \<longrightarrow> asBrush this userColor drawingRect = SolidBrush userColor)
   \<and> (\<forall>pm. pixmapOrLoad (p_image this) = Some pm \<longrightarrow>
         (\<exists>combined. asBrush this userColor drawingRect = TextureBrush combined))"
  by (simp add: asBrush_def Let_def split: option.splits)

theorem C10_asBrush_falls_back_to_user_color_witness:
  "pixmapOrLoad (p_image unloadedPaint) = None
   \<and> asBrush unloadedPaint 255 \<lparr>rf_x = 0, rf_y = 0, rf_width = 40, rf_height = 12\<rparr> = SolidBrush 255"
  using C10_asBrush_falls_back_to_user_color[of unloadedPaint 255 "\<lparr>rf_x = 0, rf_y = 0, rf_width = 40, rf_height = 12\<rparr>"]
  by (simp add: unloadedPaint_def emptyImage_def)

section \<open>The timestamp cache\<close>

text \<open>
  The record package's simplification procedure does not reduce a selector of the
  base class applied to an update of \<open>m_element\<close> (a field that is itself an element
  record), nor the converse; the equations are proved by cases.
\<close>

lemma m_element_update_base [simp]:
  "m_text (x\<lparr>m_element := y\<rparr>) = m_text x"
  "m_link (x\<lparr>m_element := y\<rparr>) = m_link x"
  "m_tooltip (x\<lparr>m_element := y\<rparr>) = m_tooltip x"
  "m_thumbnail (x\<lparr>m_element := y\<rparr>) = m_thumbnail x"
  "m_thumbnailType (x\<lparr>m_element := y\<rparr>) = m_thumbnailType x"
  "m_flags (x\<lparr>m_element := y\<rparr>) = m_flags x"
  "trailingSpace (x\<lparr>m_element := y\<rparr>) = trailingSpace x"
  by (cases x, simp)+

lemma m_element_base_update [simp]:
  "m_element (x\<lparr>m_text := a\<rparr>) = m_element x"
  "m_element (x\<lparr>m_link := b\<rparr>) = m_element x"
  "m_element (x\<lparr>m_tooltip := a\<rparr>) = m_element x"
  "m_element (x\<lparr>m_thumbnail := d\<rparr>) = m_element x"
  "m_element (x\<lparr>m_thumbnailType := e\<rparr>) = m_element x"
  "m_element (x\<lparr>m_flags := f\<rparr>) = m_element x"
  "m_element (x\<lparr>trailingSpace := g\<rparr>) = m_element x"
  by (cases x, simp)+

lemma TextElement_addToContainer_base [simp]:
  "m_flags (fst (TextElement_addToContainer env this c f)) = m_flags this"
  by (simp add: TextElement_addToContainer_def Let_def split: prod.splits)

lemma TimestampElement_addToContainer_fields:
  assumes "hasAny flags (getFlags this)"
  shows "m_format (fst (TimestampElement_addToContainer env this c flags)) = timestampFormat env"
    and "m_time (fst (TimestampElement_addToContainer env this c flags)) = m_time this"
    and "getFlags (fst (TimestampElement_addToContainer env this c flags)) = getFlags this"
  using assms
  by (auto simp: TimestampElement_addToContainer_def Let_def getFlags_def split: prod.splits)

text \<open>
  C5.  Take a timestamp element after a first render under the settings \<open>env1\<close>, and
  render it again (any container, any render flags that select it) under the settings
  \<open>env2\<close>.  If the format setting changed, the second render stores the new format, formats the
  element's time with it and renders the text element built from that string.  If
  the format setting did not change, the second render renders the cached text
  element as the first render left it: nothing is formatted.
\<close>

theorem C5_timestamp_cache:
  assumes "hasAny flags1 (getFlags this)" and "hasAny flags2 (getFlags this)"
    and "TimestampElement_addToContainer env1 this c1 flags1 = (this', c1')"
  shows "(timestampFormat env2 \<noteq> timestampFormat env1 \<longrightarrow>
            TimestampElement_addToContainer env2 this' c2 flags2 =
              (case TextElement_addToContainer env2
                      (newTextElement (localeToString env2 (m_time this) (timestampFormat env2))
                         (Timestamp (flag env2)) System ChatMedium) c2 flags2 of
                 (te, c) \<Rightarrow> (this'\<lparr>m_format := timestampFormat env2, m_element := te\<rparr>, c)))
       \<and> (timestampFormat env2 = timestampFormat env1 \<longrightarrow>
            TimestampElement_addToContainer env2 this' c2 flags2 =
              (case TextElement_addToContainer env2 (m_element this') c2 flags2 of
                 (te, c) \<Rightarrow> (this'\<lparr>m_element := te\<rparr>, c)))"
proof -
  have t: "this' = fst (TimestampElement_addToContainer env1 this c1 flags1)"
    using assms(3) by simp
  have f: "m_format this' = timestampFormat env1" "m_time this' = m_time this"
    "hasAny flags2 (getFlags this')"
    unfolding t using TimestampElement_addToContainer_fields[OF assms(1)] assms(2) by simp_all
  show ?thesis
    using f by (simp add: TimestampElement_addToContainer_def Let_def formatTime_def split: prod.splits)
qed

theorem C5_timestamp_cache_witness:
  "hasAny 8 (getFlags exampleTimestamp)
   \<and> map le_text (elements (snd (TimestampElement_addToContainer (exampleEnv [0x6D])
        (fst (TimestampElement_addToContainer (exampleEnv [0x68]) exampleTimestamp (exampleContainer 100) 8))
        (exampleContainer 100) 8))) = [[0x6D]]
   \<and> map le_text (elements (snd (TimestampElement_addToContainer (exampleEnv [0x68])
        (fst (TimestampElement_addToContainer (exampleEnv [0x68]) exampleTimestamp (exampleContainer 100) 8))
        (exampleContainer 100) 8))) = [[0x68]]"
proof -
  let ?r1 = "TimestampElement_addToContainer (exampleEnv [0x68]) exampleTimestamp (exampleContainer 100) 8"
  have h: "hasAny 8 (getFlags exampleTimestamp)"
    by (simp add: exampleTimestamp_def newTimestampElement_def TimestampElement.fields_def
          element_defs example_defs)
  have p: "?r1 = (fst ?r1, snd ?r1)" by simp
  note t = C5_timestamp_cache[OF h h p]
  have el: "map word_text (m_words (m_element (fst ?r1))) = [[0x68]]"
    by (simp add: exampleTimestamp_def newTimestampElement_def TimestampElement.fields_def
          TimestampElement_addToContainer_def TextElement_addToContainer_def formatTime_def
          addWord_def Let_def element_defs example_defs)
  have a: "TimestampElement_addToContainer (exampleEnv [0x6D]) (fst ?r1) (exampleContainer 100) 8 =
     (case TextElement_addToContainer (exampleEnv [0x6D])
             (newTextElement (localeToString (exampleEnv [0x6D]) (m_time exampleTimestamp)
                 (timestampFormat (exampleEnv [0x6D]))) (Timestamp (flag (exampleEnv [0x6D])))
                System ChatMedium) (exampleContainer 100) 8 of
        (te, c) \<Rightarrow> ((fst ?r1)\<lparr>m_format := timestampFormat (exampleEnv [0x6D]), m_element := te\<rparr>, c))"
    using t[of "exampleEnv [0x6D]" "exampleContainer 100"] by (simp add: exampleEnv_def)
  have b: "TimestampElement_addToContainer (exampleEnv [0x68]) (fst ?r1) (exampleContainer 100) 8 =
     (case TextElement_addToContainer (exampleEnv [0x68]) (m_element (fst ?r1)) (exampleContainer 100) 8 of
        (te, c) \<Rightarrow> ((fst ?r1)\<lparr>m_element := te\<rparr>, c))"
    using t[of "exampleEnv [0x68]" "exampleContainer 100"] by simp
  have a': "map le_text (elements (snd (TimestampElement_addToContainer (exampleEnv [0x6D]) (fst ?r1) (exampleContainer 100) 8))) = [[0x6D]]"
    unfolding a
    by (simp add: TextElement_addToContainer_def addWord_def Let_def element_defs example_defs)
  have b': "map le_text (elements (snd (TimestampElement_addToContainer (exampleEnv [0x68]) (fst ?r1) (exampleContainer 100) 8))) = [[0x68]]"
    unfolding b
    by (simp add: exampleTimestamp_def newTimestampElement_def TimestampElement.fields_def
          TimestampElement_addToContainer_def TextElement_addToContainer_def formatTime_def
          addWord_def Let_def element_defs example_defs)
  from h a' b' show ?thesis by (simp only: simp_thms)
qed

section \<open>The class invariant\<close>

text \<open>
  The constructors establish \<open>classInvariant\<close>; the setters, \<^verbatim>\<open>clone()\<close> and rendering
  keep it.
\<close>

lemma classInvariant_constructed:
  "classInvariant env (TwitchModerationEl (newTwitchModerationElement env))"
  "classInvariant env (EmoteEl (newEmoteElement env e f color))"
  by (simp_all add: newTwitchModerationElement_def newMessageElement_def newEmoteElement_def
        setTooltip_def MessageElement.extend_def EmoteElement.fields_def)

lemma addFlags_keeps_ModeratorTools:
  fixes ef mt f :: MessageElementFlags
  assumes "ef AND mt = mt"
  shows "flagsSet ef f AND mt = mt"
proof -
  have "(ef OR f) AND mt = (ef AND mt) OR (f AND mt)"
    by (simp add: bit.conj_disj_distrib2)
  also have "\<dots> = mt OR (f AND mt)" using assms by simp
  also have "\<dots> = mt" by (simp add: or.commute and.commute)
  finally show ?thesis by (simp add: flagsSet_def)
qed

lemma classInvariant_mutateElement:
  assumes "classInvariant env e"
  shows "classInvariant env (mutateElement m e)"
proof (cases e)
  case (EmoteEl x)
  with assms show ?thesis
    by (cases m) (simp_all add: addFlags_def setLink_def setTooltip_def setText_def)
next
  case (TwitchModerationEl x)
  with assms show ?thesis
    by (cases m)
       (simp_all add: addFlags_def setLink_def setTooltip_def setText_def addFlags_keeps_ModeratorTools)
qed simp_all

lemma classInvariant_clone:
  assumes "classInvariant env e" and "clone env e = Some e'"
  shows "classInvariant env e'"
  using assms
  by (cases e) (auto simp: EmoteElement_clone_def TwitchModerationElement_clone_def
        cloneFrom_def split: option.splits)

lemma classInvariant_addToContainer:
  assumes "classInvariant env e"
  shows "classInvariant env (fst (addToContainer env e c f))"
  using assms
  by (cases e) (auto simp: EmoteElement_addToContainer_def Let_def split: prod.splits option.splits)

section \<open>Cloning\<close>

lemma cloneFrom_base [simp]:
  "m_text (cloneFrom x src) = m_text src"
  "m_link (cloneFrom x src) = m_link src"
  "m_tooltip (cloneFrom x src) = m_tooltip src"
  "m_thumbnail (cloneFrom x src) = m_thumbnail src"
  "m_thumbnailType (cloneFrom x src) = m_thumbnailType src"
  "m_flags (cloneFrom x src) = m_flags src"
  "trailingSpace (cloneFrom x src) = trailingSpace x"
  by (simp_all add: cloneFrom_def)

lemma truncate_base [simp]:
  "m_text (MessageElement.truncate x) = m_text x"
  "m_link (MessageElement.truncate x) = m_link x"
  "m_tooltip (MessageElement.truncate x) = m_tooltip x"
  "m_thumbnail (MessageElement.truncate x) = m_thumbnail x"
  "m_thumbnailType (MessageElement.truncate x) = m_thumbnailType x"
  "m_flags (MessageElement.truncate x) = m_flags x"
  "trailingSpace (MessageElement.truncate x) = trailingSpace x"
  by (simp_all add: MessageElement.truncate_def)

lemmas clone_defs =
  EmptyElement_clone_def ImageElement_clone_def CircularImageElement_clone_def
  EmoteElement_clone_def LayeredEmoteElement_clone_def BadgeElement_clone_def
  FfzBadgeElement_clone_def TextElement_clone_def SingleLineTextElement_clone_def
  TimestampElement_clone_def TwitchModerationElement_clone_def LinebreakElement_clone_def
  ScalingImageElement_clone_def ReplyCurveElement_clone_def

lemma clone_base:
  assumes "clone env e = Some e'"
  shows "m_flags (base e') = m_flags (base e) \<and> m_text (base e') = m_text (base e)
     \<and> m_link (base e') = m_link (base e) \<and> m_tooltip (base e') = m_tooltip (base e)
     \<and> m_thumbnail (base e') = m_thumbnail (base e)
     \<and> m_thumbnailType (base e') = m_thumbnailType (base e)"
  using assms by (cases e) (auto simp: clone_defs split: option.splits)

lemma clone_total:
  assumes "classInvariant env e"
  shows "\<exists>e'. clone env e = Some e'"
  using assms by (cases e) (auto simp: EmoteElement_clone_def split: option.splits)

lemma mutateAt_length [simp]: "length (mutateAt h a m) = length h"
  by (simp add: mutateAt_def)

lemma mutateAt_other: "a \<noteq> a' \<Longrightarrow> mutateAt h a' m ! a = h ! a"
  by (simp add: mutateAt_def)

lemma mutations_other:
  "a \<noteq> a' \<Longrightarrow> foldl (\<lambda>hp m. mutateAt hp a' m) h ms ! a = h ! a"
  by (induction ms arbitrary: h) (simp_all add: mutateAt_other)

text \<open>
  C6.  For an element of any variant at address \<open>a\<close> of the heap, \<^verbatim>\<open>clone()\<close> returns
  a new address \<open>a'\<close>; the elements allocated before are unchanged; the clone's flags,
  text, link, tooltip and thumbnail equal the original's; and after any sequence of
  \<^verbatim>\<open>addFlags\<close>, \<^verbatim>\<open>setLink\<close>, \<^verbatim>\<open>setTooltip\<close> and \<^verbatim>\<open>setText\<close> calls on the clone the
  element at \<open>a\<close> is still the original, whole.
\<close>

theorem C6_clone_is_independent_copy:
  assumes "a < length h" and "classInvariant env (h ! a)"
  shows "\<exists>a' h'. cloneAt env h a = Some (a', h')
     \<and> a' \<noteq> a \<and> a' < length h' \<and> take (length h) h' = h
     \<and> getFlags (base (h' ! a')) = getFlags (base (h ! a))
     \<and> getText (base (h' ! a')) = getText (base (h ! a))
     \<and> getLink (base (h' ! a')) = getLink (base (h ! a))
     \<and> getTooltip (base (h' ! a')) = getTooltip (base (h ! a))
     \<and> getThumbnail (base (h' ! a')) = getThumbnail (base (h ! a))
     \<and> (\<forall>ms. foldl (\<lambda>hp m. mutateAt hp a' m) h' ms ! a = h ! a)"
proof -
  from clone_total[OF assms(2)] obtain e' where e': "clone env (h ! a) = Some e'" by blast
  have c: "cloneAt env h a = Some (length h, h @ [e'])"
    using assms(1) e' by (simp add: cloneAt_def)
  have ne: "a \<noteq> length h" using assms(1) by simp
  have "\<forall>ms. foldl (\<lambda>hp m. mutateAt hp (length h) m) (h @ [e']) ms ! a = h ! a"
    using mutations_other[OF ne] assms(1) by (simp add: nth_append)
  moreover have "(h @ [e']) ! length h = e'" by simp
  ultimately show ?thesis
    using c clone_base[OF e'] assms(1)
    by (simp add: getFlags_def getText_def getLink_def getTooltip_def getThumbnail_def)
qed

theorem C6_clone_is_independent_copy_witness:
  "0 < length exampleHeap \<and> classInvariant (exampleEnv []) (exampleHeap ! 0)
   \<and> (\<exists>a' h'. cloneAt (exampleEnv []) exampleHeap 0 = Some (a', h') \<and> a' \<noteq> 0
        \<and> getLink (base (h' ! a')) = \<lparr>link_type = Url, link_value = [0x75]\<rparr>
        \<and> getFlags (base (h' ! a')) = 48
        \<and> getLink (base (mutateAt h' a' (SetLink noLink) ! 0)) = \<lparr>link_type = Url, link_value = [0x75]\<rparr>)"
proof -
  have l: "0 < length exampleHeap" by (simp add: exampleHeap_def)
  have i: "classInvariant (exampleEnv []) (exampleHeap ! 0)"
    by (simp add: exampleHeap_def newEmoteElement_def setLink_def setTooltip_def
          MessageElement.extend_def EmoteElement.fields_def)
  have b1: "getLink (base (exampleHeap ! 0)) = \<lparr>link_type = Url, link_value = [0x75]\<rparr>"
    by (simp add: exampleHeap_def newEmoteElement_def setLink_def setTooltip_def getLink_def
          MessageElement.extend_def EmoteElement.fields_def)
  have b2: "getFlags (base (exampleHeap ! 0)) = 48"
    by (simp add: exampleHeap_def newEmoteElement_def setLink_def setTooltip_def
          getFlags_def newMessageElement_def MessageElement.extend_def EmoteElement.fields_def)
  from C6_clone_is_independent_copy[OF l i] obtain a' h' where
    c1: "cloneAt (exampleEnv []) exampleHeap 0 = Some (a', h')" and c2: "a' \<noteq> 0"
    and c3: "getLink (base (h' ! a')) = getLink (base (exampleHeap ! 0))"
    and c4: "getFlags (base (h' ! a')) = getFlags (base (exampleHeap ! 0))"
    and c5: "\<forall>ms. foldl (\<lambda>hp m. mutateAt hp a' m) h' ms ! 0 = exampleHeap ! 0"
    by blast
  from c5 have "foldl (\<lambda>hp m. mutateAt hp a' m) h' [SetLink noLink] ! 0 = exampleHeap ! 0"
    by (rule spec)
  then have m: "mutateAt h' a' (SetLink noLink) ! 0 = exampleHeap ! 0" by simp
  have "cloneAt (exampleEnv []) exampleHeap 0 = Some (a', h') \<and> a' \<noteq> 0
        \<and> getLink (base (h' ! a')) = \<lparr>link_type = Url, link_value = [0x75]\<rparr>
        \<and> getFlags (base (h' ! a')) = 48
        \<and> getLink (base (mutateAt h' a' (SetLink noLink) ! 0)) = \<lparr>link_type = Url, link_value = [0x75]\<rparr>"
    unfolding m c3 c4 b1 b2 using c1 c2 by (intro conjI refl)
  then have "\<exists>a' h'. cloneAt (exampleEnv []) exampleHeap 0 = Some (a', h') \<and> a' \<noteq> 0
        \<and> getLink (base (h' ! a')) = \<lparr>link_type = Url, link_value = [0x75]\<rparr>
        \<and> getFlags (base (h' ! a')) = 48
        \<and> getLink (base (mutateAt h' a' (SetLink noLink) ! 0)) = \<lparr>link_type = Url, link_value = [0x75]\<rparr>"
    by (intro exI)
  with l i show ?thesis by (intro conjI)
qed

section \<open>Rendering under a flag filter\<close>

lemma addElement_elements [simp]: "elements (addElement c e) = elements c @ [e]"
  by (simp add: addElement_def)

lemma moderationActionsLoop_frame:
  "\<exists>new. elements (moderationActionsLoop this sz actions c) = elements c @ new"
proof (induction actions arbitrary: c)
  case Nil
  show ?case by simp
next
  case (Cons action rest)
  show ?case
  proof (cases "getImage action")
    case None
    with Cons.IH[of "addElement c ((newLayoutElement this
                  (TextIconLayout (getLine1 action) (getLine2 action) (getScale c)) sz)
                 \<lparr>le_link := \<lparr>link_type = UserAction, link_value = getAction action\<rparr>\<rparr>)"]
    show ?thesis by auto
  next
    case (Some img)
    with Cons.IH[of "addElement c ((newLayoutElement this (ImageLayout img) sz)
                 \<lparr>le_link := \<lparr>link_type = UserAction, link_value = getAction action\<rparr>\<rparr>)"]
    show ?thesis by auto
  qed
qed

lemma parsedWordLoop_frame:
  "\<exists>new. elements (snd (parsedWordLoop env this metrics ps cur c)) = elements c @ new"
proof (induction ps arbitrary: cur c)
  case Nil
  show ?case by simp
next
  case (Cons p rest)
  show ?case
  proof (cases p)
    case (ParsedText s)
    then show ?thesis by (auto simp: Let_def intro: Cons.IH)
  next
    case (ParsedEmote e)
    let ?img = "images (emote e) (getScale c)"
    let ?w = "horizontalAdvance metrics cur"
    let ?sz = "scaleSize env \<lparr>size_width = img_width ?img, size_height = img_height ?img\<rparr>
                 (floatMul env (emoteScale env) (getScale c))"
    let ?c2 = "addElementNoLineBreak
                 (addElementNoLineBreak c
                    (getTextLayoutElement env this (m_color this) (m_style this) metrics
                       (getScale c) cur ?w False))
                 ((newLayoutElement this (ImageLayout ?img) ?sz)\<lparr>le_link := getLink this\<rparr>)"
    from Cons.IH[of "[]" ?c2] obtain n2 where
      n2: "elements (snd (parsedWordLoop env this metrics rest [] ?c2)) = elements ?c2 @ n2"
      by blast
    have e2: "\<exists>new. elements (snd (parsedWordLoop env this metrics rest [] ?c2)) = elements c @ new"
      unfolding n2 by simp
    from Cons.IH[of cur c] e2 ParsedEmote
    show ?thesis by (simp add: Let_def)
  qed
qed

lemma singleLineWords_frame:
  "\<exists>new. elements (snd (singleLineWords env this metrics ws cur c)) = elements c @ new"
proof (induction ws arbitrary: cur c)
  case Nil
  show ?case by simp
next
  case (Cons word rest)
  obtain cur' c' where p: "parsedWordLoop env this metrics (parse env (word_text word)) cur c = (cur', c')"
    by (cases "parsedWordLoop env this metrics (parse env (word_text word)) cur c") auto
  from parsedWordLoop_frame[of env this metrics "parse env (word_text word)" cur c] p
  obtain n1 where n1: "elements c' = elements c @ n1" by auto
  from Cons.IH[of cur' c'] obtain n2 where
    "elements (snd (singleLineWords env this metrics rest cur' c')) = elements c' @ n2" by blast
  with n1 p show ?case by simp
qed

lemma SingleLineTextElement_frame:
  "\<exists>new. elements (SingleLineTextElement_addToContainer env this c f) = elements c @ new"
proof (cases "hasAny f (getFlags this)")
  case False
  then show ?thesis by (simp add: SingleLineTextElement_addToContainer_def)
next
  case True
  let ?m = "getFontMetrics env (m_style this) (getScale c)"
  obtain cur c' where r: "singleLineWords env this ?m (m_words this) [] (c\<lparr>first := Neutral\<rparr>) = (cur, c')"
    by (cases "singleLineWords env this ?m (m_words this) [] (c\<lparr>first := Neutral\<rparr>)") auto
  from singleLineWords_frame[of env this ?m "m_words this" "[]" "c\<lparr>first := Neutral\<rparr>"] r
  obtain new where "elements c' = elements c @ new" by auto
  then show ?thesis using True r
    by (simp add: SingleLineTextElement_addToContainer_def Let_def)
qed

lemma TextElement_frame:
  "\<exists>new. elements (snd (TextElement_addToContainer env this c f)) = elements c @ new"
proof (cases "hasAny f (getFlags this)")
  case False
  then show ?thesis by (simp add: TextElement_addToContainer_def)
next
  case True
  let ?m = "getFontMetrics env (m_style this) (getScale c)"
  let ?mk = "getTextLayoutElement env this (m_color this) (m_style this) ?m (getScale c)"
  from addWords_frame[of ?mk ?m "hasTrailingSpace this" c "m_words this"]
  show ?thesis using True
    by (auto simp: TextElement_addToContainer_def Let_def split: prod.splits)
qed

lemma not_has_ModeratorTools:
  fixes flags ef mt :: MessageElementFlags
  assumes "\<not> hasAny flags ef" and "ef AND mt = mt"
  shows "\<not> has flags mt"
proof -
  have "flags AND mt = flags AND (ef AND mt)" using assms(2) by simp
  also have "\<dots> = (flags AND ef) AND mt" by (simp add: and.assoc)
  also have "\<dots> = 0" using assms(1) by (simp add: hasAny_def)
  finally show ?thesis by (simp add: has_def)
qed

lemmas addToContainer_defs =
  EmptyElement_addToContainer_def ImageElement_addToContainer_def
  CircularImageElement_addToContainer_def EmoteElement_addToContainer_def
  LayeredEmoteElement_addToContainer_def BadgeElement_addToContainer_def
  TextElement_addToContainer_def SingleLineTextElement_addToContainer_def
  TimestampElement_addToContainer_def TwitchModerationElement_addToContainer_def
  LinebreakElement_addToContainer_def ScalingImageElement_addToContainer_def
  ReplyCurveElement_addToContainer_def

lemma addToContainer_noop:
  assumes "classInvariant env e" and "\<not> hasAny flags (getFlags (base e))"
  shows "addToContainer env e c flags = (e, c)"
proof (cases e)
  case (TwitchModerationEl x)
  with assms have "\<not> has flags (ModeratorTools (flag env))"
    using not_has_ModeratorTools[of flags "m_flags x" "ModeratorTools (flag env)"]
    by (simp add: getFlags_def)
  with TwitchModerationEl show ?thesis by (simp add: TwitchModerationElement_addToContainer_def)
qed (insert assms, simp_all add: addToContainer_defs getFlags_def)

lemma addToContainer_frame:
  "\<exists>new. elements (snd (addToContainer env e c flags)) = elements c @ new"
proof (cases e)
  case (EmoteEl x)
  show ?thesis
  proof (cases "m_textElement x")
    case None
    with EmoteEl show ?thesis by (simp add: EmoteElement_addToContainer_def Let_def)
  next
    case (Some te)
    from TextElement_frame[of env te c "Misc (flag env)"] EmoteEl Some show ?thesis
      by (auto simp: EmoteElement_addToContainer_def Let_def split: prod.splits)
  qed
next
  case (LayeredEmoteEl x)
  show ?thesis
  proof (cases "le_textElement x")
    case None
    with LayeredEmoteEl show ?thesis by (simp add: LayeredEmoteElement_addToContainer_def Let_def)
  next
    case (Some te)
    from TextElement_frame[of env te c "Misc (flag env)"] LayeredEmoteEl Some show ?thesis
      by (auto simp: LayeredEmoteElement_addToContainer_def Let_def split: prod.splits)
  qed
next
  case (TextEl x)
  from TextElement_frame[of env x c flags] TextEl show ?thesis
    by (auto split: prod.splits)
next
  case (SingleLineTextEl x)
  from SingleLineTextElement_frame[of env x c flags] SingleLineTextEl show ?thesis by simp
next
  case (TimestampEl x)
  from TextElement_frame[of env "m_element x" c flags]
    TextElement_frame[of env "formatTime env (m_time x)" c flags] TimestampEl
  show ?thesis
    by (auto simp: TimestampElement_addToContainer_def Let_def split: prod.splits)
next
  case (TwitchModerationEl x)
  from moderationActionsLoop_frame TwitchModerationEl show ?thesis
    by (simp add: TwitchModerationElement_addToContainer_def)
qed (simp_all add: addToContainer_defs Let_def)

text \<open>
  C8.  For an element of any variant, when the render flags do not intersect the
  element's flags \<^verbatim>\<open>addToContainer\<close> returns the element and the container as they
  were (no primitive, same line and cursor); in every case the primitives already in
  the container stay, in order, and zero or more are appended.
\<close>

theorem C8_flag_filter_noop:
  assumes "classInvariant env e"
  shows "(\<not> hasAny flags (getFlags (base e)) \<longrightarrow> addToContainer env e c flags = (e, c))
     \<and> (\<exists>new. elements (snd (addToContainer env e c flags)) = elements c @ new)"
  using addToContainer_noop[OF assms] addToContainer_frame by blast

theorem C8_flag_filter_noop_witness:
  "classInvariant (exampleEnv []) (TwitchModerationEl (newTwitchModerationElement (exampleEnv [])))
   \<and> \<not> hasAny 3 (getFlags (base (TwitchModerationEl (newTwitchModerationElement (exampleEnv [])))))
   \<and> addToContainer (exampleEnv []) (TwitchModerationEl (newTwitchModerationElement (exampleEnv [])))
         (exampleContainer 100) 3
       = (TwitchModerationEl (newTwitchModerationElement (exampleEnv [])), exampleContainer 100)"
proof -
  let ?e = "TwitchModerationEl (newTwitchModerationElement (exampleEnv []))"
  have i: "classInvariant (exampleEnv []) ?e"
    by (simp add: newTwitchModerationElement_def newMessageElement_def)
  have n: "\<not> hasAny 3 (getFlags (base ?e))"
    by (simp add: newTwitchModerationElement_def newMessageElement_def hasAny_def getFlags_def
          exampleEnv_def exampleFlagNames_def)
  from C8_flag_filter_noop[OF i, of 3 "exampleContainer 100"] n
  have "addToContainer (exampleEnv []) ?e (exampleContainer 100) 3 = (?e, exampleContainer 100)"
    by blast
  with i n show ?thesis by (intro conjI)
qed

section \<open>Empty images\<close>

lemma getLoadedImagesLoop_filter:
  "getLoadedImagesLoop es scale res =
     res @ filter (\<lambda>img. \<not> isEmpty img) (map (\<lambda>e. images (emote (ptr e)) scale) es)"
  by (induction es arbitrary: res) (simp_all add: Let_def)

text \<open>
  C9, as amended.  When the image at the container's scale is the empty sentinel: a
  badge of any kind and a scaling image emit nothing; an emote emits nothing when the
  render flags ask for emote images.  The images a layered emote loads are those of
  its layers that are not empty, in layer order: when the render flags ask for emote
  images, it emits nothing if every layer's image is empty, and one layered primitive
  holding exactly the loaded images otherwise.  Where nothing is emitted, the call
  returns the element and the container unchanged.  When the render flags select an
  emote or a layered emote without asking for emote images, no image is resolved and
  the container is the one the element's fallback text element renders into.
\<close>

theorem C9_empty_image_emits_nothing:
  "(has flags (EmoteImages (flag env)) \<and> isEmpty (images (emote (m_emote x)) (getScale c)) \<longrightarrow>
       addToContainer env (EmoteEl x) c flags = (EmoteEl x, c))
   \<and> (isEmpty (images (emote (b_emote b)) (getScale c)) \<longrightarrow>
       addToContainer env (BadgeEl b) c flags = (BadgeEl b, c)
       \<and> addToContainer env (ModBadgeEl b) c flags = (ModBadgeEl b, c)
       \<and> addToContainer env (VipBadgeEl b) c flags = (VipBadgeEl b, c))
   \<and> (isEmpty (images (emote (b_emote fb)) (getScale c)) \<longrightarrow>
       addToContainer env (FfzBadgeEl fb) c flags = (FfzBadgeEl fb, c))
   \<and> (isEmpty (m_images s (getScale c)) \<longrightarrow>
       addToContainer env (ScalingImageEl s) c flags = (ScalingImageEl s, c))
   \<and> getLoadedImages l (getScale c)
       = filter (\<lambda>img. \<not> isEmpty img) (map (\<lambda>e. images (emote (ptr e)) (getScale c)) (m_emotes l))
   \<and> (has flags (EmoteImages (flag env))
        \<and> (\<forall>e\<in>set (m_emotes l). isEmpty (images (emote (ptr e)) (getScale c))) \<longrightarrow>
       addToContainer env (LayeredEmoteEl l) c flags = (LayeredEmoteEl l, c))
   \<and> (hasAny flags (getFlags l) \<and> has flags (EmoteImages (flag env))
        \<and> getLoadedImages l (getScale c) \<noteq> [] \<longrightarrow>
       (\<exists>e sizes. elements (snd (addToContainer env (LayeredEmoteEl l) c flags)) = elements c @ [e]
          \<and> le_kind e = LayeredImageLayout (getLoadedImages l (getScale c)) sizes))
   \<and> (hasAny flags (getFlags x) \<and> \<not> has flags (EmoteImages (flag env))
        \<and> m_textElement x = Some te \<longrightarrow>
       snd (addToContainer env (EmoteEl x) c flags)
         = snd (TextElement_addToContainer env te c (Misc (flag env))))
   \<and> (hasAny flags (getFlags l) \<and> \<not> has flags (EmoteImages (flag env))
        \<and> le_textElement l = Some te \<longrightarrow>
       snd (addToContainer env (LayeredEmoteEl l) c flags)
         = snd (TextElement_addToContainer env te c (Misc (flag env))))"
proof -
  have li: "getLoadedImages l (getScale c)
       = filter (\<lambda>img. \<not> isEmpty img) (map (\<lambda>e. images (emote (ptr e)) (getScale c)) (m_emotes l))"
    by (simp add: getLoadedImages_def getLoadedImagesLoop_filter)
  have le: "(\<forall>e\<in>set (m_emotes l). isEmpty (images (emote (ptr e)) (getScale c))) \<Longrightarrow>
       getLoadedImages l (getScale c) = []"
    unfolding li by (simp add: filter_empty_conv)
  have a: "has flags (EmoteImages (flag env)) \<and> isEmpty (images (emote (m_emote x)) (getScale c)) \<longrightarrow>
       addToContainer env (EmoteEl x) c flags = (EmoteEl x, c)"
    by (simp add: EmoteElement_addToContainer_def Let_def)
  have b: "isEmpty (images (emote (b_emote b)) (getScale c)) \<longrightarrow>
       addToContainer env (BadgeEl b) c flags = (BadgeEl b, c)
       \<and> addToContainer env (ModBadgeEl b) c flags = (ModBadgeEl b, c)
       \<and> addToContainer env (VipBadgeEl b) c flags = (VipBadgeEl b, c)"
    by (simp add: BadgeElement_addToContainer_def Let_def)
  have f: "isEmpty (images (emote (b_emote fb)) (getScale c)) \<longrightarrow>
       addToContainer env (FfzBadgeEl fb) c flags = (FfzBadgeEl fb, c)"
    by (simp add: BadgeElement_addToContainer_def Let_def)
  have s: "isEmpty (m_images s (getScale c)) \<longrightarrow>
       addToContainer env (ScalingImageEl s) c flags = (ScalingImageEl s, c)"
    by (simp add: ScalingImageElement_addToContainer_def Let_def)
  have l: "has flags (EmoteImages (flag env))
        \<and> (\<forall>e\<in>set (m_emotes l). isEmpty (images (emote (ptr e)) (getScale c))) \<longrightarrow>
       addToContainer env (LayeredEmoteEl l) c flags = (LayeredEmoteEl l, c)"
    using le by (simp add: LayeredEmoteElement_addToContainer_def Let_def)
  have k: "hasAny flags (getFlags l) \<and> has flags (EmoteImages (flag env))
        \<and> getLoadedImages l (getScale c) \<noteq> [] \<longrightarrow>
       (\<exists>e sizes. elements (snd (addToContainer env (LayeredEmoteEl l) c flags)) = elements c @ [e]
          \<and> le_kind e = LayeredImageLayout (getLoadedImages l (getScale c)) sizes)"
    by (simp add: LayeredEmoteElement_addToContainer_def Let_def newLayoutElement_def)
  have tx: "hasAny flags (getFlags x) \<and> \<not> has flags (EmoteImages (flag env))
        \<and> m_textElement x = Some te \<longrightarrow>
       snd (addToContainer env (EmoteEl x) c flags)
         = snd (TextElement_addToContainer env te c (Misc (flag env)))"
    by (simp add: EmoteElement_addToContainer_def split: prod.splits)
  have tl: "hasAny flags (getFlags l) \<and> \<not> has flags (EmoteImages (flag env))
        \<and> le_textElement l = Some te \<longrightarrow>
       snd (addToContainer env (LayeredEmoteEl l) c flags)
         = snd (TextElement_addToContainer env te c (Misc (flag env)))"
    by (simp add: LayeredEmoteElement_addToContainer_def split: prod.splits)
  from a b f s li l k tx tl show ?thesis by (intro conjI)
qed

theorem C9_empty_image_emits_nothing_witness:
  "has 16 (EmoteImages (flag (exampleEnv [])))
   \<and> isEmpty (images (emote (m_emote unloadedEmoteElement)) (getScale (exampleContainer 100)))
   \<and> addToContainer (exampleEnv []) (EmoteEl unloadedEmoteElement) (exampleContainer 100) 16
       = (EmoteEl unloadedEmoteElement, exampleContainer 100)"
proof -
  have h: "has 16 (EmoteImages (flag (exampleEnv [])))"
    by (simp add: has_def exampleEnv_def exampleFlagNames_def)
  have e: "isEmpty (images (emote (m_emote unloadedEmoteElement)) (getScale (exampleContainer 100)))"
    by (simp add: unloadedEmoteElement_def newEmoteElement_def setTooltip_def
          MessageElement.extend_def EmoteElement.fields_def unloadedEmote_def emptyImage_def)
  from C9_empty_image_emits_nothing[where flags=16 and env="exampleEnv []" and x=unloadedEmoteElement
      and c="exampleContainer 100"] h e
  have "addToContainer (exampleEnv []) (EmoteEl unloadedEmoteElement) (exampleContainer 100) 16
       = (EmoteEl unloadedEmoteElement, exampleContainer 100)"
    by blast
  with h e show ?thesis by (intro conjI)
qed

text \<open>
  C9 as stated fails for an emote whose image is empty when the render flags select
  the element but not emote images: the fallback text is emitted.
\<close>

theorem C9_text_mode_emits_fallback_text:
  "isEmpty (images (emote (m_emote unloadedEmoteElement)) (getScale (exampleContainer 100)))
   \<and> elements (exampleContainer 100) = []
   \<and> map le_text (elements (snd (addToContainer (exampleEnv []) (EmoteEl unloadedEmoteElement)
                                   (exampleContainer 100) 32))) = [[0x4C]]"
  by (simp add: unloadedEmoteElement_def newEmoteElement_def setTooltip_def
        EmoteElement.fields_def
        EmoteElement_addToContainer_def TextElement_addToContainer_def addWord_def Let_def
        element_defs example_defs)

section \<open>Single-line text\<close>

lemma qRound_of_int [simp]: "qRound (of_int n) = n"
proof (cases "0 \<le> n")
  case True
  have "\<lfloor>(of_int n :: rat) + 1 / 2\<rfloor> = n" by (rule floor_unique) simp_all
  with True show ?thesis by (simp add: qRound_def)
next
  case False
  have "\<lceil>(of_int n :: rat) - 1 / 2\<rceil> = n" by (rule ceiling_unique) simp_all
  with False show ?thesis by (simp add: qRound_def)
qed

lemma toInt_of_int [simp]: "toInt (of_int n) = n"
  by (simp add: toInt_def)

lemma qRound_numeral [simp]: "qRound (numeral k) = numeral k" "qRound 0 = 0" "qRound 1 = 1"
  using qRound_of_int[of "numeral k"] qRound_of_int[of 0] qRound_of_int[of 1] by simp_all

lemma toInt_numeral [simp]: "toInt (numeral k) = numeral k" "toInt 0 = 0" "toInt 1 = 1"
  by (simp_all add: toInt_def)

text \<open>
  The scenario of the spec at the input \<open>ab : cdefgh\<close>, where \<open>:\<close> is an emote 28
  pixels wide, in an empty line 90 pixels wide: the fragment \<open>ab\<close>, the emote image
  (a primitive with no text), the elided remainder, and one line break.
\<close>

lemma singleLine_scenario_example:
  "map le_text (elements (SingleLineTextElement_addToContainer (exampleEnv [])
       (newTextElement [0x61, 0x62, 0x20, 0x3A, 0x20, 0x63, 0x64, 0x65, 0x66, 0x67, 0x68] 1 TextColor ChatMedium)
       (exampleContainer 90) 1))
     = [[0x61, 0x62], [], [0x63, 0x64, 0x2026]]
   \<and> line (SingleLineTextElement_addToContainer (exampleEnv [])
       (newTextElement [0x61, 0x62, 0x20, 0x3A, 0x20, 0x63, 0x64, 0x65, 0x66, 0x67, 0x68] 1 TextColor ChatMedium)
       (exampleContainer 90) 1) = 1"
  by (simp add: SingleLineTextElement_addToContainer_def Let_def
        ellipsis_def trimmed_def isSpace_def mulSize_def
        element_defs example_defs)

text \<open>
  C1.  The code at the input \<open>ab ; c\<close>, where \<open>;\<close> is an emote 100 pixels wide, in an
  empty line 90 pixels wide: the emote does not fit after \<open>ab\<close>, the ellipsis is
  appended, and the word after the emote is still processed.  The one fragment
  emitted is \<open>ab... c\<close>, followed by one line break.
\<close>

theorem C1_words_after_an_overflowing_emote_are_processed:
  "map word_text (m_words overflowingLine) = [[0x61, 0x62], [0x3B], [0x63]]
   \<and> map le_text (elements (SingleLineTextElement_addToContainer (exampleEnv []) overflowingLine
                               (exampleContainer 90) 1))
       = [[0x61, 0x62, 0x2E, 0x2E, 0x2E, 0x20, 0x63]]
   \<and> line (SingleLineTextElement_addToContainer (exampleEnv []) overflowingLine
              (exampleContainer 90) 1) = 1"
  by (simp add: overflowingLine_def SingleLineTextElement_addToContainer_def Let_def
        ellipsis_def trimmed_def isSpace_def mulSize_def
        element_defs example_defs)

end
